theory Spec2Isabelle
  imports Complex_Main "HOL-Library.AList" "HOL-Library.Multiset"
begin

section \<open>Python values shared by the modules\<close>

text \<open>
  Numbers are Python floats in the source; they are modelled by exact rationals, so every
  statement below is about exact arithmetic. Exceptions are values: a function whose body
  can raise returns \<open>py_exception + 'a\<close>.
\<close>

datatype py_exception =
    ZeroDivisionError
  | TypeError
  | ValueError
  | KeyError string

type_synonym rect = "rat \<times> rat \<times> rat \<times> rat"

text \<open>Python's \<open>a / b\<close> on numbers: raises ZeroDivisionError when \<open>b\<close> is zero.\<close>

definition py_div :: "rat \<Rightarrow> rat \<Rightarrow> py_exception + rat" where
  "py_div a b = (if b = 0 then Inl ZeroDivisionError else Inr (a / b))"

section \<open>core/coordinate\_utils.py\<close>

definition normalize_rect :: "rat \<Rightarrow> rat \<Rightarrow> rat \<Rightarrow> rat \<Rightarrow> rect" where
  "normalize_rect x0 y0 x1 y1 = (min x0 x1, min y0 y1, max x0 x1, max y0 y1)"

record coordinate_transformer =
  zoom :: rat
  scale :: rat
  offset_x :: rat
  offset_y :: rat

text \<open>\<open>CoordinateTransformer.__init__\<close>.\<close>

definition CoordinateTransformer_init :: coordinate_transformer where
  "CoordinateTransformer_init = \<lparr>zoom = 2, scale = 1, offset_x = 0, offset_y = 0\<rparr>"

definition set_transform_params ::
  "rat \<Rightarrow> rat \<Rightarrow> rat \<Rightarrow> rat \<Rightarrow> coordinate_transformer \<Rightarrow> coordinate_transformer" where
  "set_transform_params z s ox oy ct = ct\<lparr>zoom := z, scale := s, offset_x := ox, offset_y := oy\<rparr>"

definition pdf_to_image_coords :: "coordinate_transformer \<Rightarrow> rat \<Rightarrow> rat \<Rightarrow> rat \<times> rat" where
  "pdf_to_image_coords ct pdf_x pdf_y =
     (let transform_factor = zoom ct * scale ct
      in (pdf_x * transform_factor, pdf_y * transform_factor))"

text \<open>
  The two divisions of \<open>image_to_pdf_coords\<close> are evaluated left to right; the tuple is
  built only when neither raised.
\<close>

definition image_to_pdf_coords ::
  "coordinate_transformer \<Rightarrow> rat \<Rightarrow> rat \<Rightarrow> py_exception + (rat \<times> rat)" where
  "image_to_pdf_coords ct img_x img_y =
     (let transform_factor = zoom ct * scale ct
      in if transform_factor = 0 then Inr (0, 0)
         else (case py_div img_x transform_factor of
                 Inl e \<Rightarrow> Inl e
               | Inr px \<Rightarrow> (case py_div img_y transform_factor of
                              Inl e \<Rightarrow> Inl e
                            | Inr py \<Rightarrow> Inr (px, py))))"

definition canvas_to_image_coords :: "coordinate_transformer \<Rightarrow> rat \<Rightarrow> rat \<Rightarrow> rat \<times> rat" where
  "canvas_to_image_coords ct canvas_x canvas_y = (canvas_x - offset_x ct, canvas_y - offset_y ct)"

definition image_to_canvas_coords :: "coordinate_transformer \<Rightarrow> rat \<Rightarrow> rat \<Rightarrow> rat \<times> rat" where
  "image_to_canvas_coords ct img_x img_y = (img_x + offset_x ct, img_y + offset_y ct)"

definition canvas_to_pdf_coords ::
  "coordinate_transformer \<Rightarrow> rat \<Rightarrow> rat \<Rightarrow> py_exception + (rat \<times> rat)" where
  "canvas_to_pdf_coords ct canvas_x canvas_y =
     (case canvas_to_image_coords ct canvas_x canvas_y of
        (img_x, img_y) \<Rightarrow> image_to_pdf_coords ct img_x img_y)"

definition pdf_to_canvas_coords :: "coordinate_transformer \<Rightarrow> rat \<Rightarrow> rat \<Rightarrow> rat \<times> rat" where
  "pdf_to_canvas_coords ct pdf_x pdf_y =
     (case pdf_to_image_coords ct pdf_x pdf_y of
        (img_x, img_y) \<Rightarrow> image_to_canvas_coords ct img_x img_y)"

definition canvas_to_pdf_delta ::
  "coordinate_transformer \<Rightarrow> rat \<Rightarrow> rat \<Rightarrow> py_exception + (rat \<times> rat)" where
  "canvas_to_pdf_delta ct dx dy =
     (case py_div dx (scale ct) of
        Inl e \<Rightarrow> Inl e
      | Inr ddx \<Rightarrow> (case py_div dy (scale ct) of
                      Inl e \<Rightarrow> Inl e
                    | Inr ddy \<Rightarrow> Inr (ddx, ddy)))"

section \<open>utils/validators.py\<close>

text \<open>
  A label is a Python \<open>str\<close>; one \<open>char\<close> stands for one code point, so \<open>length\<close>
  is Python's \<open>len\<close>. \<open>py_isspace\<close> is \<open>str.isspace\<close> on the code points below 256,
  the characters that \<open>str.strip()\<close> removes.
\<close>

definition py_isspace :: "char \<Rightarrow> bool" where
  "py_isspace c =
     (let n = (of_char c :: nat)
      in (9 \<le> n \<and> n \<le> 13) \<or> (28 \<le> n \<and> n \<le> 32) \<or> n = 133 \<or> n = 160)"

definition strip :: "string \<Rightarrow> string" where
  "strip s = rev (dropWhile py_isspace (rev (dropWhile py_isspace s)))"

text \<open>
  \<open>validate_label\<close>. The last test is \<open>existing_labels and label in existing_labels\<close>: an
  empty (or absent) set is falsy.
\<close>

definition validate_label :: "string \<Rightarrow> string set \<Rightarrow> bool \<times> string" where
  "validate_label label existing_labels =
     (if label = [] then (False, ''Label cannot be empty'')
      else if strip label = [] then (False, ''Label cannot be only whitespace'')
      else if length label > 100 then (False, ''Label too long (max 100 characters)'')
      else if existing_labels \<noteq> {} \<and> label \<in> existing_labels
        then (False, ''Label already exists'')
      else (True, []))"

record duplicate_validator =
  file_paths :: "string set"
  region_labels :: "string set"

definition DuplicateValidator_init :: duplicate_validator where
  "DuplicateValidator_init = \<lparr>file_paths = {}, region_labels = {}\<rparr>"

definition is_duplicate_label :: "string \<Rightarrow> duplicate_validator \<Rightarrow> bool" where
  "is_duplicate_label label v = (label \<in> region_labels v)"

definition add_label :: "string \<Rightarrow> duplicate_validator \<Rightarrow> bool \<times> duplicate_validator" where
  "add_label label v =
     (if label \<in> region_labels v then (False, v)
      else (True, v\<lparr>region_labels := insert label (region_labels v)\<rparr>))"

definition remove_label :: "string \<Rightarrow> duplicate_validator \<Rightarrow> bool \<times> duplicate_validator" where
  "remove_label label v =
     (if label \<in> region_labels v then (True, v\<lparr>region_labels := region_labels v - {label}\<rparr>)
      else (False, v))"

definition update_label ::
  "string \<Rightarrow> string \<Rightarrow> duplicate_validator \<Rightarrow> bool \<times> duplicate_validator" where
  "update_label old_label new_label v =
     (if new_label \<in> region_labels v \<and> new_label \<noteq> old_label then (False, v)
      else
        (let v1 = (if old_label \<in> region_labels v
                   then v\<lparr>region_labels := region_labels v - {old_label}\<rparr> else v)
         in (True, v1\<lparr>region_labels := insert new_label (region_labels v1)\<rparr>)))"

definition clear_labels :: "duplicate_validator \<Rightarrow> duplicate_validator" where
  "clear_labels v = v\<lparr>region_labels := {}\<rparr>"

section \<open>core/region\_manager.py\<close>

text \<open>
  \<open>regions\<close> is a Python dict, whose iteration order is insertion order: an association
  list with \<open>AList.update\<close> for \<open>d[k] = v\<close> (in place for a present key, appended for a
  new one), \<open>AList.delete\<close> for \<open>del d[k]\<close> and \<open>d.pop(k)\<close>, and \<open>map_of\<close> for lookup.

  The Tk canvas is outside the repository. It is observed only through the item id that
  \<open>create_rectangle\<close> hands back for the rectangle drawn for a label; \<open>None\<close> as the
  \<open>canvas\<close> argument is the default of every method. All other canvas calls only draw.
\<close>

type_synonym canvas = "string \<Rightarrow> nat"

record region_data =
  coords :: rect
  rect_id :: "nat option"

record region_manager =
  validator :: duplicate_validator
  regions :: "(string \<times> region_data) list"
  region_order :: "string list"
  selected_region :: "string option"

definition RegionManager_init :: region_manager where
  "RegionManager_init =
     \<lparr>validator = DuplicateValidator_init, regions = [], region_order = [],
      selected_region = None\<rparr>"

definition ERROR_DUPLICATE_LABEL :: string where
  "ERROR_DUPLICATE_LABEL = ''This label already exists''"

text \<open>
  \<open>normalize_rect(*coords)\<close>: the call unpacks the tuple, and raises TypeError unless it
  has exactly four elements.
\<close>

definition normalize_rect_star :: "rat list \<Rightarrow> py_exception + rect" where
  "normalize_rect_star cs =
     (case cs of
        [x0, y0, x1, y1] \<Rightarrow> Inr (normalize_rect x0 y0 x1 y1)
      | _ \<Rightarrow> Inl TypeError)"

text \<open>
  Every method returns its value (or the exception it raised) together with the manager
  as the call left it.
\<close>

definition add_region ::
  "string \<Rightarrow> rat list \<Rightarrow> canvas option \<Rightarrow> region_manager
     \<Rightarrow> (py_exception + (bool \<times> string)) \<times> region_manager" where
  "add_region label cs canvas s =
     (case validate_label label (region_labels (validator s)) of
        (False, error_msg) \<Rightarrow> (Inr (False, error_msg), s)
      | (True, _) \<Rightarrow>
          (case normalize_rect_star cs of
             Inl e \<Rightarrow> (Inl e, s)
           | Inr r \<Rightarrow>
               (case add_label label (validator s) of
                  (False, v') \<Rightarrow> (Inr (False, ERROR_DUPLICATE_LABEL), s\<lparr>validator := v'\<rparr>)
                | (True, v') \<Rightarrow>
                    (let region = \<lparr>coords = r, rect_id = map_option (\<lambda>c. c label) canvas\<rparr>
                     in (Inr (True, []),
                         s\<lparr>validator := v',
                           regions := AList.update label region (regions s),
                           region_order := region_order s @ [label]\<rparr>)))))"

text \<open>\<open>list.index(x)\<close>: the position of the first occurrence, ValueError when absent.\<close>

definition list_index :: "'a list \<Rightarrow> 'a \<Rightarrow> py_exception + nat" where
  "list_index xs x =
     (if x \<in> set xs then Inr (length (takeWhile (\<lambda>y. y \<noteq> x) xs)) else Inl ValueError)"

definition update_region_label ::
  "string \<Rightarrow> string \<Rightarrow> region_manager
     \<Rightarrow> (py_exception + (bool \<times> string)) \<times> region_manager" where
  "update_region_label old_label new_label s =
     (case map_of (regions s) old_label of
        None \<Rightarrow> (Inr (False, ''Region not found''), s)
      | Some region \<Rightarrow>
          (case validate_label new_label (region_labels (validator s) - {old_label}) of
             (False, error_msg) \<Rightarrow> (Inr (False, error_msg), s)
           | (True, _) \<Rightarrow>
               (case update_label old_label new_label (validator s) of
                  (False, v') \<Rightarrow> (Inr (False, ERROR_DUPLICATE_LABEL), s\<lparr>validator := v'\<rparr>)
                | (True, v') \<Rightarrow>
                    (let s1 = s\<lparr>validator := v',
                                regions := AList.update new_label region
                                             (AList.delete old_label (regions s))\<rparr>
                     in (case list_index (region_order s1) old_label of
                           Inl e \<Rightarrow> (Inl e, s1)
                         | Inr index \<Rightarrow>
                             (let s2 = s1\<lparr>region_order := (region_order s1)[index := new_label]\<rparr>;
                                  s3 = (if selected_region s2 = Some old_label
                                        then s2\<lparr>selected_region := Some new_label\<rparr> else s2)
                              in (Inr (True, []), s3)))))))"

definition update_region_coords ::
  "string \<Rightarrow> rat list \<Rightarrow> canvas option \<Rightarrow> region_manager
     \<Rightarrow> (py_exception + bool) \<times> region_manager" where
  "update_region_coords label cs canvas s =
     (case map_of (regions s) label of
        None \<Rightarrow> (Inr False, s)
      | Some region \<Rightarrow>
          (case normalize_rect_star cs of
             Inl e \<Rightarrow> (Inl e, s)
           | Inr r \<Rightarrow>
               (Inr True, s\<lparr>regions := AList.update label (region\<lparr>coords := r\<rparr>) (regions s)\<rparr>)))"

text \<open>\<open>list.remove(x)\<close> deletes the first occurrence and raises ValueError when absent.\<close>

definition remove_region ::
  "string \<Rightarrow> canvas option \<Rightarrow> region_manager \<Rightarrow> (py_exception + bool) \<times> region_manager" where
  "remove_region label canvas s =
     (case map_of (regions s) label of
        None \<Rightarrow> (Inr False, s)
      | Some region \<Rightarrow>
          (let s1 = s\<lparr>regions := AList.delete label (regions s)\<rparr>
           in if label \<notin> set (region_order s1) then (Inl ValueError, s1)
              else
                (let s2 = s1\<lparr>region_order := remove1 label (region_order s1),
                             validator := snd (remove_label label (validator s1))\<rparr>;
                     s3 = (if selected_region s2 = Some label
                           then s2\<lparr>selected_region := None\<rparr> else s2)
                 in (Inr True, s3))))"

text \<open>
  \<open>move_region\<close>: \<open>pop(from_index)\<close> then \<open>insert(to_index, label)\<close>; both indices are
  Python ints checked against the length first.
\<close>

definition move_region :: "int \<Rightarrow> int \<Rightarrow> region_manager \<Rightarrow> bool \<times> region_manager" where
  "move_region from_index to_index s =
     (let n = int (length (region_order s))
      in if \<not> (0 \<le> from_index \<and> from_index < n \<and> 0 \<le> to_index \<and> to_index < n)
         then (False, s)
         else
           (let label = region_order s ! nat from_index;
                popped = take (nat from_index) (region_order s)
                         @ drop (Suc (nat from_index)) (region_order s)
            in (True, s\<lparr>region_order :=
                          take (nat to_index) popped @ [label] @ drop (nat to_index) popped\<rparr>)))"

definition select_region :: "string \<Rightarrow> canvas option \<Rightarrow> region_manager \<Rightarrow> bool \<times> region_manager" where
  "select_region label canvas s =
     (case map_of (regions s) label of
        None \<Rightarrow> (False, s)
      | Some region \<Rightarrow> (True, s\<lparr>selected_region := Some label\<rparr>))"

definition clear_selection :: "canvas option \<Rightarrow> region_manager \<Rightarrow> region_manager" where
  "clear_selection canvas s = s\<lparr>selected_region := None\<rparr>"

text \<open>\<open>redraw_all_regions\<close>: every region in the order list gets a freshly drawn rectangle.\<close>

definition redraw_all_regions :: "canvas option \<Rightarrow> region_manager \<Rightarrow> region_manager" where
  "redraw_all_regions canvas s =
     (case canvas of
        None \<Rightarrow> s
      | Some c \<Rightarrow>
          s\<lparr>regions :=
              foldl (\<lambda>rs label.
                       case map_of rs label of
                         None \<Rightarrow> rs
                       | Some region \<Rightarrow> AList.update label (region\<lparr>rect_id := Some (c label)\<rparr>) rs)
                    (regions s) (region_order s)\<rparr>)"

definition clear_all_regions :: "canvas option \<Rightarrow> region_manager \<Rightarrow> region_manager" where
  "clear_all_regions canvas s =
     s\<lparr>regions := [], region_order := [], validator := clear_labels (validator s),
       selected_region := None\<rparr>"

subsection \<open>Persistence\<close>

text \<open>
  The configuration file holds the JSON object
  \<open>{"regions": {label: {"coords": [...]}}, "order": [label, ...]}\<close>. A parsed file is
  modelled at that shape: either key of the top-level object may be missing
  (\<open>data.get\<close> then supplies the default), an entry may lack its \<open>"coords"\<close> key, and a
  coordinate list may have any length. \<open>json.load\<close> of what \<open>json.dump\<close> wrote is taken to
  give back the same data (a tuple comes back as a list). JSON documents of any other
  shape are outside this model.

  A path on the disk is missing, cannot be opened (\<open>Locked\<close>: \<open>open\<close> raises OSError),
  holds text that \<open>json.load\<close> rejects (\<open>Corrupt\<close>), or holds a parsed configuration.
\<close>

record region_config =
  cfg_regions :: "(string \<times> rat list option) list option"
  cfg_order :: "string list option"

datatype file_state = Missing | Locked | Corrupt | Parsed region_config

type_synonym disk = "string \<Rightarrow> file_state"

text \<open>
  The messages are f-strings in the source: \<open>Saved to {filename}\<close>,
  \<open>Failed to save: {e}\<close>, \<open>Loaded {n} regions from {filename}\<close>,
  \<open>File {filename} not found\<close>, \<open>Failed to load: {e}\<close>.
\<close>

datatype io_exception = OSError | JSONDecodeError | Raised py_exception

datatype message =
    Saved_to string
  | Failed_to_save io_exception
  | Loaded nat string
  | File_not_found string
  | Failed_to_load io_exception

definition to_dict :: "region_data \<Rightarrow> rat list option" where
  "to_dict region = (case coords region of (x0, y0, x1, y1) \<Rightarrow> Some [x0, y0, x1, y1])"

definition save_to_file ::
  "string \<Rightarrow> region_manager \<Rightarrow> disk \<Rightarrow> (bool \<times> message) \<times> disk" where
  "save_to_file filename s d =
     (let data = \<lparr>cfg_regions = Some (map (\<lambda>(label, region). (label, to_dict region)) (regions s)),
                  cfg_order = Some (region_order s)\<rparr>
      in if d filename = Locked then ((False, Failed_to_save OSError), d)
         else ((True, Saved_to filename), d(filename := Parsed data)))"

text \<open>
  The loop of \<open>load_from_file\<close>. An exception leaves the loop at once; the manager keeps
  whatever the earlier iterations added.
\<close>

fun load_loop ::
  "(string \<times> rat list option) list \<Rightarrow> canvas option \<Rightarrow> string list \<Rightarrow> nat \<Rightarrow> region_manager
     \<Rightarrow> (py_exception + nat) \<times> region_manager" where
  "load_loop regions_data canvas [] loaded_count s = (Inr loaded_count, s)"
| "load_loop regions_data canvas (label # rest) loaded_count s =
     (case map_of regions_data label of
        None \<Rightarrow> load_loop regions_data canvas rest loaded_count s
      | Some region_info \<Rightarrow>
          (case region_info of
             None \<Rightarrow> (Inl (KeyError ''coords''), s)
           | Some cs \<Rightarrow>
               (case add_region label cs canvas s of
                  (Inl e, s') \<Rightarrow> (Inl e, s')
                | (Inr (success, _), s') \<Rightarrow>
                    load_loop regions_data canvas rest
                      (if success then loaded_count + 1 else loaded_count) s')))"

definition load_from_file ::
  "string \<Rightarrow> canvas option \<Rightarrow> disk \<Rightarrow> region_manager \<Rightarrow> (bool \<times> message) \<times> region_manager" where
  "load_from_file filename canvas d s =
     (case d filename of
        Missing \<Rightarrow> ((False, File_not_found filename), s)
      | Locked \<Rightarrow> ((False, Failed_to_load OSError), s)
      | Corrupt \<Rightarrow> ((False, Failed_to_load JSONDecodeError), s)
      | Parsed data \<Rightarrow>
          (let s0 = clear_all_regions canvas s;
               regions_data = (case cfg_regions data of None \<Rightarrow> [] | Some r \<Rightarrow> r);
               order = (case cfg_order data of None \<Rightarrow> [] | Some l \<Rightarrow> l)
           in (case load_loop regions_data canvas order 0 s0 of
                 (Inl e, s') \<Rightarrow> ((False, Failed_to_load (Raised e)), s')
               | (Inr loaded_count, s') \<Rightarrow> ((True, Loaded loaded_count filename), s'))))"

section \<open>Reachable stores and their invariant\<close>

text \<open>
  A label passes the content checks of \<open>validate_label\<close>; a box is normalized when its
  first corner is the lower one on both axes.
\<close>

definition label_ok :: "string \<Rightarrow> bool" where
  "label_ok l = (l \<noteq> [] \<and> strip l \<noteq> [] \<and> length l \<le> 100)"

definition normalized :: "rect \<Rightarrow> bool" where
  "normalized r = (case r of (x0, y0, x1, y1) \<Rightarrow> x0 \<le> x1 \<and> y0 \<le> y1)"

definition keys :: "region_manager \<Rightarrow> string set" where
  "keys s = fst ` set (regions s)"

definition store_inv :: "region_manager \<Rightarrow> bool" where
  "store_inv s =
     (distinct (map fst (regions s))
      \<and> distinct (region_order s)
      \<and> set (region_order s) = keys s
      \<and> region_labels (validator s) = keys s
      \<and> (\<forall>l. selected_region s = Some l \<longrightarrow> l \<in> keys s)
      \<and> (\<forall>(l, r) \<in> set (regions s). label_ok l \<and> normalized (coords r)))"

text \<open>
  The stores a session can reach: a fresh manager, and whatever a public method leaves
  behind, whether it returned or raised.
\<close>

inductive reachable :: "region_manager \<Rightarrow> bool" where
  reach_init: "reachable RegionManager_init"
| reach_add: "reachable s \<Longrightarrow> reachable (snd (add_region label cs canvas s))"
| reach_rename: "reachable s \<Longrightarrow> reachable (snd (update_region_label old_label new_label s))"
| reach_coords: "reachable s \<Longrightarrow> reachable (snd (update_region_coords label cs canvas s))"
| reach_remove: "reachable s \<Longrightarrow> reachable (snd (remove_region label canvas s))"
| reach_move: "reachable s \<Longrightarrow> reachable (snd (move_region from_index to_index s))"
| reach_select: "reachable s \<Longrightarrow> reachable (snd (select_region label canvas s))"
| reach_clear_selection: "reachable s \<Longrightarrow> reachable (clear_selection canvas s)"
| reach_redraw: "reachable s \<Longrightarrow> reachable (redraw_all_regions canvas s)"
| reach_clear_all: "reachable s \<Longrightarrow> reachable (clear_all_regions canvas s)"
| reach_load: "reachable s \<Longrightarrow> reachable (snd (load_from_file filename canvas d s))"

section \<open>Vocabulary for statements about loading\<close>

text \<open>
  \<open>first_occurrences\<close> drops every repeat of an element after its first occurrence.
  \<open>file_box\<close> is the box a file entry yields once normalized (\<open>None\<close> for an entry that
  is absent, has no \<open>"coords"\<close> key or has not four coordinates). \<open>entry_raises\<close> says
  when the entry of a label makes the loading loop raise, given the labels \<open>seen\<close> earlier
  in the order list: the entry has no \<open>"coords"\<close> key, or its coordinate list has not four
  elements while the label itself would be accepted.
\<close>

definition first_occurrences :: "'a list \<Rightarrow> 'a list" where
  "first_occurrences xs = rev (remdups (rev xs))"

definition file_box :: "(string \<times> rat list option) list \<Rightarrow> string \<Rightarrow> rect option" where
  "file_box regions_data l =
     (case map_of regions_data l of
        Some (Some cs) \<Rightarrow> (case normalize_rect_star cs of Inr r \<Rightarrow> Some r | Inl e \<Rightarrow> None)
      | _ \<Rightarrow> None)"

definition entry_raises ::
  "(string \<times> rat list option) list \<Rightarrow> string set \<Rightarrow> string \<Rightarrow> bool" where
  "entry_raises regions_data seen l =
     (case map_of regions_data l of
        None \<Rightarrow> False
      | Some None \<Rightarrow> True
      | Some (Some cs) \<Rightarrow> length cs \<noteq> 4 \<and> label_ok l \<and> l \<notin> seen)"

definition listed :: "(string \<times> rat list option) list \<Rightarrow> string \<Rightarrow> bool" where
  "listed regions_data l = (map_of regions_data l \<noteq> None \<and> label_ok l)"

text \<open>A disk without any file.\<close>

definition empty_disk :: disk where
  "empty_disk = (\<lambda>filename. Missing)"

section \<open>tools/resize\_tools.py\<close>

definition RESIZE_CORNER_THRESHOLD :: rat where
  "RESIZE_CORNER_THRESHOLD = 20"

definition RESIZE_CORNERS :: "string list" where
  "RESIZE_CORNERS = [''top-left'', ''top-right'', ''bottom-left'', ''bottom-right'']"

text \<open>
  The tool keeps references to the canvas, the transformer and the region manager; here
  they are arguments of each method. The attribute \<open>move_region\<close> of the tool is the
  field \<open>moving_region\<close> (the name \<open>move_region\<close> is the manager's method). The two
  attributes that \<open>start_move\<close> creates are \<open>None\<close> until then. The pointer position
  \<open>(x, y)\<close> is already in canvas coordinates (\<open>canvas.canvasx(event.x)\<close> is Tk's).
\<close>

record resize_tool =
  is_resizing :: bool
  resize_region :: "string option"
  resize_corner :: "string option"
  start_coords :: "(rat \<times> rat) option"
  original_coords :: "rect option"
  is_moving :: bool
  moving_region :: "string option"
  move_start_coords :: "(rat \<times> rat) option"
  original_coords_move :: "rect option"
  original_coords_move_pdf :: "rect option"
  original_coords_move_canvas :: "((rat \<times> rat) \<times> (rat \<times> rat)) option"

definition ResizeTool_init :: resize_tool where
  "ResizeTool_init =
     \<lparr>is_resizing = False, resize_region = None, resize_corner = None, start_coords = None,
      original_coords = None, is_moving = False, moving_region = None,
      move_start_coords = None, original_coords_move = None,
      original_coords_move_pdf = None, original_coords_move_canvas = None\<rparr>"

text \<open>Truthiness of an attribute that holds \<open>None\<close> or a string.\<close>

definition truthy :: "string option \<Rightarrow> bool" where
  "truthy v = (case v of None \<Rightarrow> False | Some l \<Rightarrow> l \<noteq> [])"

text \<open>The loop of \<open>check_corner_proximity\<close> over the items of the \<open>corners\<close> dict.\<close>

fun corner_loop :: "rat \<Rightarrow> rat \<Rightarrow> (string \<times> (rat \<times> rat)) list \<Rightarrow> string option" where
  "corner_loop canvas_x canvas_y [] = None"
| "corner_loop canvas_x canvas_y ((corner_name, (corner_x, corner_y)) # rest) =
     (let dx = \<bar>canvas_x - corner_x\<bar>; dy = \<bar>canvas_y - corner_y\<bar>
      in if dx \<le> RESIZE_CORNER_THRESHOLD \<and> dy \<le> RESIZE_CORNER_THRESHOLD then Some corner_name
         else corner_loop canvas_x canvas_y rest)"

definition check_corner_proximity ::
  "coordinate_transformer \<Rightarrow> region_manager \<Rightarrow> rat \<Rightarrow> rat \<Rightarrow> string \<Rightarrow> string option" where
  "check_corner_proximity ct rm canvas_x canvas_y region_label =
     (case map_of (regions rm) region_label of
        None \<Rightarrow> None
      | Some region \<Rightarrow>
          (case coords region of (x0, y0, x1, y1) \<Rightarrow>
             (case pdf_to_canvas_coords ct x0 y0 of (cx0, cy0) \<Rightarrow>
                (case pdf_to_canvas_coords ct x1 y1 of (cx1, cy1) \<Rightarrow>
                   corner_loop canvas_x canvas_y
                     [(''top-left'', (cx0, cy0)), (''top-right'', (cx1, cy0)),
                      (''bottom-left'', (cx0, cy1)), (''bottom-right'', (cx1, cy1))]))))"

definition start_resize ::
  "string \<Rightarrow> string \<Rightarrow> rat \<Rightarrow> rat \<Rightarrow> region_manager \<Rightarrow> resize_tool \<Rightarrow> bool \<times> resize_tool" where
  "start_resize region_label corner canvas_x canvas_y rm tool =
     (case map_of (regions rm) region_label of
        None \<Rightarrow> (False, tool)
      | Some region \<Rightarrow>
          if corner \<notin> set RESIZE_CORNERS then (False, tool)
          else (True, tool\<lparr>is_resizing := True, resize_region := Some region_label,
                           resize_corner := Some corner,
                           start_coords := Some (canvas_x, canvas_y),
                           original_coords := Some (coords region)\<rparr>))"

definition start_move ::
  "string \<Rightarrow> rat \<Rightarrow> rat \<Rightarrow> coordinate_transformer \<Rightarrow> region_manager \<Rightarrow> resize_tool
     \<Rightarrow> bool \<times> resize_tool" where
  "start_move region_label canvas_x canvas_y ct rm tool =
     (case map_of (regions rm) region_label of
        None \<Rightarrow> (False, tool)
      | Some region \<Rightarrow>
          (case coords region of (x0, y0, x1, y1) \<Rightarrow>
             (True, tool\<lparr>is_moving := True, moving_region := Some region_label,
                          move_start_coords := Some (canvas_x, canvas_y),
                          original_coords_move := Some (coords region),
                          original_coords_move_pdf := Some (x0, y0, x1, y1),
                          original_coords_move_canvas :=
                            Some (pdf_to_canvas_coords ct x0 y0,
                                  pdf_to_canvas_coords ct x1 y1)\<rparr>)))"

text \<open>
  The two loops of \<open>handle_mouse_press\<close> over \<open>regions.items()\<close>; each gives the tool as
  the first matching region leaves it, or \<open>None\<close> when the loop ran to its end.
\<close>

fun press_corner_loop ::
  "coordinate_transformer \<Rightarrow> region_manager \<Rightarrow> rat \<Rightarrow> rat \<Rightarrow> resize_tool
     \<Rightarrow> (string \<times> region_data) list \<Rightarrow> resize_tool option" where
  "press_corner_loop ct rm x y tool [] = None"
| "press_corner_loop ct rm x y tool ((label, region) # rest) =
     (if truthy (check_corner_proximity ct rm x y label)
      then Some (snd (start_resize label (the (check_corner_proximity ct rm x y label)) x y rm tool))
      else press_corner_loop ct rm x y tool rest)"

fun press_inside_loop ::
  "coordinate_transformer \<Rightarrow> region_manager \<Rightarrow> rat \<Rightarrow> rat \<Rightarrow> resize_tool
     \<Rightarrow> (string \<times> region_data) list \<Rightarrow> resize_tool option" where
  "press_inside_loop ct rm x y tool [] = None"
| "press_inside_loop ct rm x y tool ((label, region) # rest) =
     (case coords region of (x0, y0, x1, y1) \<Rightarrow>
        (case pdf_to_canvas_coords ct x0 y0 of (cx0, cy0) \<Rightarrow>
           (case pdf_to_canvas_coords ct x1 y1 of (cx1, cy1) \<Rightarrow>
              if cx0 \<le> x \<and> x \<le> cx1 \<and> cy0 \<le> y \<and> y \<le> cy1
              then Some (snd (start_move label x y ct rm tool))
              else press_inside_loop ct rm x y tool rest)))"

definition handle_mouse_press ::
  "rat \<Rightarrow> rat \<Rightarrow> coordinate_transformer \<Rightarrow> region_manager \<Rightarrow> resize_tool \<Rightarrow> resize_tool" where
  "handle_mouse_press x y ct rm tool =
     (case press_corner_loop ct rm x y tool (regions rm) of
        Some tool' \<Rightarrow> tool'
      | None \<Rightarrow>
          (case press_inside_loop ct rm x y tool (regions rm) of
             Some tool' \<Rightarrow> tool'
           | None \<Rightarrow> tool))"

text \<open>
  \<open>update_move\<close> and \<open>update_resize\<close> change the region manager only. Unpacking an
  attribute that holds \<open>None\<close> raises TypeError.
\<close>

definition update_move ::
  "rat \<Rightarrow> rat \<Rightarrow> coordinate_transformer \<Rightarrow> canvas option \<Rightarrow> resize_tool \<Rightarrow> region_manager
     \<Rightarrow> (py_exception + bool) \<times> region_manager" where
  "update_move canvas_x canvas_y ct canvas tool rm =
     (if \<not> is_moving tool \<or> \<not> truthy (moving_region tool) then (Inr False, rm)
      else
        (case move_start_coords tool of
           None \<Rightarrow> (Inl TypeError, rm)
         | Some (prev_x, prev_y) \<Rightarrow>
             (let dx = canvas_x - prev_x; dy = canvas_y - prev_y
              in (case original_coords_move_canvas tool of
                    None \<Rightarrow> (Inl TypeError, rm)
                  | Some ((cx0, cy0), (cx1, cy1)) \<Rightarrow>
                      (let new_cx0 = cx0 + dx; new_cy0 = cy0 + dy;
                           new_cx1 = cx1 + dx; new_cy1 = cy1 + dy
                       in (case canvas_to_pdf_coords ct new_cx0 new_cy0 of
                             Inl e \<Rightarrow> (Inl e, rm)
                           | Inr (pdf_x0, pdf_y0) \<Rightarrow>
                               (case canvas_to_pdf_coords ct new_cx1 new_cy1 of
                                  Inl e \<Rightarrow> (Inl e, rm)
                                | Inr (pdf_x1, pdf_y1) \<Rightarrow>
                                    (case update_region_coords (the (moving_region tool))
                                            [pdf_x0, pdf_y0, pdf_x1, pdf_y1] canvas rm of
                                       (Inl e, rm') \<Rightarrow> (Inl e, rm')
                                     | (Inr updated, rm') \<Rightarrow> (Inr True, rm')))))))))"

definition update_resize ::
  "rat \<Rightarrow> rat \<Rightarrow> coordinate_transformer \<Rightarrow> canvas option \<Rightarrow> resize_tool \<Rightarrow> region_manager
     \<Rightarrow> (py_exception + bool) \<times> region_manager" where
  "update_resize canvas_x canvas_y ct canvas tool rm =
     (if \<not> is_resizing tool \<or> \<not> truthy (resize_region tool) then (Inr False, rm)
      else
        (case original_coords tool of
           None \<Rightarrow> (Inl TypeError, rm)
         | Some (ox0, oy0, ox1, oy1) \<Rightarrow>
             (case canvas_to_pdf_coords ct canvas_x canvas_y of
                Inl e \<Rightarrow> (Inl e, rm)
              | Inr (px, py) \<Rightarrow>
                  if resize_corner tool = Some ''top-left''
                  then update_region_coords (the (resize_region tool)) [px, py, ox1, oy1] canvas rm
                  else if resize_corner tool = Some ''top-right''
                  then update_region_coords (the (resize_region tool)) [ox0, py, px, oy1] canvas rm
                  else if resize_corner tool = Some ''bottom-left''
                  then update_region_coords (the (resize_region tool)) [px, oy0, ox1, py] canvas rm
                  else if resize_corner tool = Some ''bottom-right''
                  then update_region_coords (the (resize_region tool)) [ox0, oy0, px, py] canvas rm
                  else (Inr False, rm))))"

definition handle_mouse_drag ::
  "rat \<Rightarrow> rat \<Rightarrow> coordinate_transformer \<Rightarrow> canvas option \<Rightarrow> resize_tool \<Rightarrow> region_manager
     \<Rightarrow> (py_exception + unit) \<times> region_manager" where
  "handle_mouse_drag x y ct canvas tool rm =
     (if is_resizing tool
      then (case update_resize x y ct canvas tool rm of
              (Inl e, rm') \<Rightarrow> (Inl e, rm')
            | (Inr updated, rm') \<Rightarrow> (Inr (), rm'))
      else if is_moving tool
      then (case update_move x y ct canvas tool rm of
              (Inl e, rm') \<Rightarrow> (Inl e, rm')
            | (Inr updated, rm') \<Rightarrow> (Inr (), rm'))
      else (Inr (), rm))"

definition finish_move :: "resize_tool \<Rightarrow> bool \<times> resize_tool" where
  "finish_move tool =
     (if \<not> is_moving tool then (False, tool)
      else (True, tool\<lparr>is_moving := False, moving_region := None, move_start_coords := None,
                       original_coords_move_pdf := None,
                       original_coords_move_canvas := None\<rparr>))"

definition finish_resize :: "resize_tool \<Rightarrow> bool \<times> resize_tool" where
  "finish_resize tool =
     (if \<not> is_resizing tool then (False, tool)
      else (True, tool\<lparr>is_resizing := False, resize_region := None, resize_corner := None,
                       start_coords := None, original_coords := None\<rparr>))"

definition handle_mouse_release :: "resize_tool \<Rightarrow> resize_tool" where
  "handle_mouse_release tool =
     (if is_resizing tool then snd (finish_resize tool)
      else if is_moving tool then snd (finish_move tool)
      else tool)"

text \<open>
  A drag: the pointer positions of the successive motion events, each handled by
  \<open>handle_mouse_drag\<close> on the manager that the previous one left.
\<close>

fun drag_events ::
  "(rat \<times> rat) list \<Rightarrow> coordinate_transformer \<Rightarrow> canvas option \<Rightarrow> resize_tool \<Rightarrow> region_manager
     \<Rightarrow> region_manager" where
  "drag_events [] ct canvas tool rm = rm"
| "drag_events ((x, y) # events) ct canvas tool rm =
     drag_events events ct canvas tool (snd (handle_mouse_drag x y ct canvas tool rm))"

section \<open>core/pdf\_manager.py: the word under the pointer\<close>

text \<open>
  Of the PDF manager only \<open>text_coords\<close>, the list of word boxes in image space, and
  \<open>find_word_at_position\<close> are needed.
\<close>

fun find_word_loop :: "rat \<Rightarrow> rat \<Rightarrow> (rect \<times> string) list \<Rightarrow> (rect \<times> string) option" where
  "find_word_loop img_x img_y [] = None"
| "find_word_loop img_x img_y (((x0, y0, x1, y1), word) # rest) =
     (if x0 \<le> img_x \<and> img_x \<le> x1 \<and> y0 \<le> img_y \<and> img_y \<le> y1
      then Some ((x0, y0, x1, y1), word)
      else find_word_loop img_x img_y rest)"

definition find_word_at_position ::
  "coordinate_transformer \<Rightarrow> (rect \<times> string) list \<Rightarrow> rat \<Rightarrow> rat \<Rightarrow> (rect \<times> string) option" where
  "find_word_at_position ct text_coords canvas_x canvas_y =
     (if text_coords = [] then None
      else (case canvas_to_image_coords ct canvas_x canvas_y of
              (img_x, img_y) \<Rightarrow> find_word_loop img_x img_y text_coords))"

section \<open>tools/selection\_tools.py\<close>

record box_selection_tool =
  start_pos :: "(rat \<times> rat) option"
  temp_rect :: "nat option"
  is_drawing :: bool

text \<open>
  \<open>SelectionToolManager\<close>: the word tool has no state of its own; \<open>tools\<close> is the dict
  with the keys \<open>"word"\<close> and \<open>"box"\<close>, and \<open>tools[current_tool]\<close> raises KeyError for any
  other name.
\<close>

record selection_tool_manager =
  current_tool :: string
  box_tool :: box_selection_tool

definition SelectionToolManager_init :: selection_tool_manager where
  "SelectionToolManager_init =
     \<lparr>current_tool = ''word'',
      box_tool = \<lparr>start_pos = None, temp_rect = None, is_drawing = False\<rparr>\<rparr>"

definition word_handle_mouse_press ::
  "coordinate_transformer \<Rightarrow> (rect \<times> string) list \<Rightarrow> rat \<Rightarrow> rat \<Rightarrow> bool" where
  "word_handle_mouse_press ct text_coords cx cy =
     (case find_word_at_position ct text_coords cx cy of None \<Rightarrow> False | Some word_data \<Rightarrow> True)"

definition box_handle_mouse_press ::
  "coordinate_transformer \<Rightarrow> rat \<Rightarrow> rat \<Rightarrow> box_selection_tool \<Rightarrow> bool \<times> box_selection_tool" where
  "box_handle_mouse_press ct cx cy box =
     (True, box\<lparr>start_pos := Some (canvas_to_image_coords ct cx cy), is_drawing := True,
                temp_rect := None\<rparr>)"

definition cancel_drawing :: "box_selection_tool \<Rightarrow> box_selection_tool" where
  "cancel_drawing box = box\<lparr>temp_rect := None, is_drawing := False, start_pos := None\<rparr>"

definition set_tool ::
  "string \<Rightarrow> selection_tool_manager \<Rightarrow> (py_exception + bool) \<times> selection_tool_manager" where
  "set_tool tool_name m =
     (if tool_name \<noteq> ''word'' \<and> tool_name \<noteq> ''box'' then (Inr False, m)
      else if current_tool m = ''box''
        then (Inr True, m\<lparr>box_tool := cancel_drawing (box_tool m), current_tool := tool_name\<rparr>)
      else if current_tool m = ''word'' then (Inr True, m\<lparr>current_tool := tool_name\<rparr>)
      else (Inl (KeyError (current_tool m)), m))"

definition selection_handle_mouse_press ::
  "coordinate_transformer \<Rightarrow> (rect \<times> string) list \<Rightarrow> rat \<Rightarrow> rat \<Rightarrow> selection_tool_manager
     \<Rightarrow> (py_exception + bool) \<times> selection_tool_manager" where
  "selection_handle_mouse_press ct text_coords cx cy m =
     (if current_tool m = ''word'' then (Inr (word_handle_mouse_press ct text_coords cx cy), m)
      else if current_tool m = ''box''
        then (case box_handle_mouse_press ct cx cy (box_tool m) of
                (handled, box') \<Rightarrow> (Inr handled, m\<lparr>box_tool := box'\<rparr>))
      else (Inl (KeyError (current_tool m)), m))"

definition create_word_region ::
  "coordinate_transformer \<Rightarrow> canvas option \<Rightarrow> rect \<Rightarrow> string \<Rightarrow> string \<Rightarrow> region_manager
     \<Rightarrow> (py_exception + (bool \<times> string)) \<times> region_manager" where
  "create_word_region ct canvas word_bbox word label rm =
     (case word_bbox of (x0, y0, x1, y1) \<Rightarrow>
        (case image_to_pdf_coords ct x0 y0 of
           Inl e \<Rightarrow> (Inl e, rm)
         | Inr (px0, py0) \<Rightarrow>
             (case image_to_pdf_coords ct x1 y1 of
                Inl e \<Rightarrow> (Inl e, rm)
              | Inr (px1, py1) \<Rightarrow> add_region label [px0, py0, px1, py1] canvas rm)))"

section \<open>main.py: dispatch of a button press\<close>

text \<open>
  The application state that \<open>on_mouse_press\<close> reads and writes. \<open>mode_var\<close> is the
  radio-button variable (\<open>"word"\<close>, \<open>"box"\<close> or \<open>"resize"\<close>). What the user types into the
  label dialog is an input of the handler (\<open>None\<close> when the dialog is cancelled); status
  bar, list box and message boxes only display.
\<close>

record app =
  mode_var :: string
  coord_transformer :: coordinate_transformer
  text_coords :: "(rect \<times> string) list"
  region_manager :: region_manager
  selection_tools :: selection_tool_manager
  resize_tool :: resize_tool

definition on_mouse_press ::
  "rat \<Rightarrow> rat \<Rightarrow> string option \<Rightarrow> canvas option \<Rightarrow> app \<Rightarrow> (py_exception + unit) \<times> app" where
  "on_mouse_press x y dialog_label canvas a =
     (let mode = mode_var a
      in if mode = ''resize''
         then (Inr (), a\<lparr>resize_tool := handle_mouse_press x y (coord_transformer a)
                                           (region_manager a) (resize_tool a)\<rparr>)
         else
           (case set_tool mode (selection_tools a) of
              (Inl e, st1) \<Rightarrow> (Inl e, a\<lparr>selection_tools := st1\<rparr>)
            | (Inr was_set, st1) \<Rightarrow>
                (case selection_handle_mouse_press (coord_transformer a) (text_coords a) x y st1 of
                   (Inl e, st2) \<Rightarrow> (Inl e, a\<lparr>selection_tools := st2\<rparr>)
                 | (Inr result, st2) \<Rightarrow>
                     (let a2 = a\<lparr>selection_tools := st2\<rparr>
                      in if mode = ''word'' \<and> result
                         then (case find_word_at_position (coord_transformer a) (text_coords a) x y of
                                 None \<Rightarrow> (Inr (), a2)
                               | Some (word_bbox, word) \<Rightarrow>
                                   if truthy dialog_label
                                   then (case create_word_region (coord_transformer a) canvas
                                                word_bbox word (the dialog_label) (region_manager a) of
                                           (Inl e, rm') \<Rightarrow> (Inl e, a2\<lparr>region_manager := rm'\<rparr>)
                                         | (Inr outcome, rm') \<Rightarrow>
                                             (Inr (), a2\<lparr>region_manager := rm'\<rparr>))
                                   else (Inr (), a2))
                         else (Inr (), a2)))))"

section \<open>Vocabulary for statements about pointer events\<close>

text \<open>
  \<open>near_corner\<close>: the pointer is within the threshold, on both axes, of the canvas image
  of a document point. \<open>corner_hit\<close>: the first corner of a box, in the order top-left,
  top-right, bottom-left, bottom-right, that the pointer is near. \<open>inside_box\<close>: the
  pointer lies in the canvas image of the box, borders included. \<open>resize_box\<close>: the box
  a resize drag of a corner asks for, from the box captured at press time and the
  pointer in document space. \<open>normalize_box\<close> is \<open>normalize_rect\<close> on a box.
  \<open>translate\<close>: a box moved by a vector.
\<close>

definition near_corner :: "coordinate_transformer \<Rightarrow> rat \<Rightarrow> rat \<Rightarrow> rat \<Rightarrow> rat \<Rightarrow> bool" where
  "near_corner ct x y px py =
     (\<bar>x - fst (pdf_to_canvas_coords ct px py)\<bar> \<le> RESIZE_CORNER_THRESHOLD
      \<and> \<bar>y - snd (pdf_to_canvas_coords ct px py)\<bar> \<le> RESIZE_CORNER_THRESHOLD)"

definition corner_hit :: "coordinate_transformer \<Rightarrow> rect \<Rightarrow> rat \<Rightarrow> rat \<Rightarrow> string option" where
  "corner_hit ct box x y =
     (case box of (x0, y0, x1, y1) \<Rightarrow>
        if near_corner ct x y x0 y0 then Some ''top-left''
        else if near_corner ct x y x1 y0 then Some ''top-right''
        else if near_corner ct x y x0 y1 then Some ''bottom-left''
        else if near_corner ct x y x1 y1 then Some ''bottom-right''
        else None)"

definition inside_box :: "coordinate_transformer \<Rightarrow> rect \<Rightarrow> rat \<Rightarrow> rat \<Rightarrow> bool" where
  "inside_box ct box x y =
     (case box of (x0, y0, x1, y1) \<Rightarrow>
        fst (pdf_to_canvas_coords ct x0 y0) \<le> x \<and> x \<le> fst (pdf_to_canvas_coords ct x1 y1)
        \<and> snd (pdf_to_canvas_coords ct x0 y0) \<le> y \<and> y \<le> snd (pdf_to_canvas_coords ct x1 y1))"

definition resize_box :: "string \<Rightarrow> rect \<Rightarrow> rat \<Rightarrow> rat \<Rightarrow> rect" where
  "resize_box corner original px py =
     (case original of (ox0, oy0, ox1, oy1) \<Rightarrow>
        if corner = ''top-left'' then (px, py, ox1, oy1)
        else if corner = ''top-right'' then (ox0, py, px, oy1)
        else if corner = ''bottom-left'' then (px, oy0, ox1, py)
        else (ox0, oy0, px, py))"

definition normalize_box :: "rect \<Rightarrow> rect" where
  "normalize_box box = (case box of (x0, y0, x1, y1) \<Rightarrow> normalize_rect x0 y0 x1 y1)"

definition translate :: "rect \<Rightarrow> rat \<Rightarrow> rat \<Rightarrow> rect" where
  "translate box tx ty = (case box of (x0, y0, x1, y1) \<Rightarrow> (x0 + tx, y0 + ty, x1 + tx, y1 + ty))"

definition width :: "rect \<Rightarrow> rat" where
  "width box = (case box of (x0, y0, x1, y1) \<Rightarrow> x1 - x0)"

definition height :: "rect \<Rightarrow> rat" where
  "height box = (case box of (x0, y0, x1, y1) \<Rightarrow> y1 - y0)"

section \<open>Properties of the coordinate conversions\<close>

lemma image_to_pdf_coords_total:
  "image_to_pdf_coords ct x y =
     Inr (if zoom ct * scale ct = 0 then (0, 0)
          else (x / (zoom ct * scale ct), y / (zoom ct * scale ct)))"
  by (simp add: image_to_pdf_coords_def py_div_def Let_def)

lemma canvas_to_pdf_coords_total:
  "canvas_to_pdf_coords ct x y =
     Inr (if zoom ct * scale ct = 0 then (0, 0)
          else ((x - offset_x ct) / (zoom ct * scale ct),
                (y - offset_y ct) / (zoom ct * scale ct)))"
  by (simp add: canvas_to_pdf_coords_def canvas_to_image_coords_def image_to_pdf_coords_total)

text \<open>
  C5, at the input where it fails: with \<open>scale = 0\<close> the delta conversion divides by
  zero and raises, where \<open>image_to_pdf_coords\<close> on the same transform returns the safe
  default \<open>(0, 0)\<close>.
\<close>

theorem canvas_to_pdf_delta_raises_at_zero_scale:
  "canvas_to_pdf_delta \<lparr>zoom = 2, scale = 0, offset_x = 0, offset_y = 0\<rparr> 1 1
     = Inl ZeroDivisionError
   \<and> image_to_pdf_coords \<lparr>zoom = 2, scale = 0, offset_x = 0, offset_y = 0\<rparr> 1 1
     = Inr (0, 0)"
  by (simp add: canvas_to_pdf_delta_def image_to_pdf_coords_def py_div_def)



section \<open>The store invariant is preserved by every method\<close>

lemma validate_label_True:
  "validate_label l E = (True, m) \<longleftrightarrow> (label_ok l \<and> l \<notin> E \<and> m = [])"
  by (auto simp: validate_label_def label_ok_def split: if_splits)

lemma set_update_subset: "set (AList.update k v al) \<subseteq> insert (k, v) (set al)"
  by (induction al) auto

lemma set_delete_subset: "set (AList.delete k al) \<subseteq> set al"
  by (auto simp: AList.delete_eq)

lemma all_update:
  "\<forall>p \<in> set al. P p \<Longrightarrow> P (k, v) \<Longrightarrow> \<forall>p \<in> set (AList.update k v al). P p"
  using set_update_subset[of k v al] by blast

lemma all_delete: "\<forall>p \<in> set al. P p \<Longrightarrow> \<forall>p \<in> set (AList.delete k al). P p"
  using set_delete_subset[of k al] by blast

lemma keys_update: "fst ` set (AList.update k v al) = insert k (fst ` set al)"
  by (simp add: dom_update)

lemma keys_delete: "fst ` set (AList.delete k al) = fst ` set al - {k}"
  by (auto simp: AList.delete_eq)

lemma normalized_normalize_rect: "normalized (normalize_rect x0 y0 x1 y1)"
  by (simp add: normalized_def normalize_rect_def min_def max_def)

lemma normalize_rect_star_normalized: "normalize_rect_star cs = Inr r \<Longrightarrow> normalized r"
  by (auto simp: normalize_rect_star_def normalized_normalize_rect split: list.splits)

lemma store_inv_init: "store_inv RegionManager_init"
  by (simp add: store_inv_def RegionManager_init_def keys_def DuplicateValidator_init_def)

lemma add_region_inv:
  assumes "store_inv s"
  shows "store_inv (snd (add_region label cs canvas s))"
proof (cases "validate_label label (region_labels (validator s))")
  case (Pair ok msg)
  show ?thesis
  proof (cases ok)
    case False
    with Pair assms show ?thesis by (simp add: add_region_def)
  next
    case True
    with Pair have ok: "label_ok label" and fresh: "label \<notin> region_labels (validator s)"
      by (simp_all add: validate_label_True)
    show ?thesis
    proof (cases "normalize_rect_star cs")
      case (Inl e)
      with Pair True assms show ?thesis by (simp add: add_region_def)
    next
      case (Inr r)
      from assms fresh have nk: "label \<notin> keys s" by (simp add: store_inv_def)
      have n: "normalized r" using Inr by (rule normalize_rect_star_normalized)
      let ?rd = "\<lparr>coords = r, rect_id = map_option (\<lambda>c. c label) canvas\<rparr>"
      have s': "snd (add_region label cs canvas s)
                  = s\<lparr>validator := (validator s)\<lparr>region_labels := insert label (region_labels (validator s))\<rparr>,
                       regions := AList.update label ?rd (regions s),
                       region_order := region_order s @ [label]\<rparr>"
        using Pair True Inr fresh by (simp add: add_region_def add_label_def)
      have all: "\<forall>(l, r) \<in> set (AList.update label ?rd (regions s)). label_ok l \<and> normalized (coords r)"
        using set_update_subset[of label ?rd "regions s"] assms ok n
        by (auto simp: store_inv_def)
      show ?thesis
        unfolding s' using assms nk all
        by (auto simp: store_inv_def keys_def distinct_update keys_update split: option.splits)
    qed
  qed
qed


lemma list_update_index_map:
  "distinct xs \<Longrightarrow> x \<in> set xs \<Longrightarrow>
     xs[length (takeWhile (\<lambda>y. y \<noteq> x) xs) := z] = map (\<lambda>y. if y = x then z else y) xs"
proof (induction xs)
  case Nil
  then show ?case by simp
next
  case (Cons a xs)
  show ?case
  proof (cases "a = x")
    case True
    with Cons.prems have "x \<notin> set xs" by simp
    then have "map (\<lambda>y. if y = x then z else y) xs = xs"
      by (induction xs) auto
    with True show ?thesis by simp
  next
    case False
    with Cons show ?thesis by simp
  qed
qed

lemma set_map_replace:
  "x \<in> set xs \<Longrightarrow> set (map (\<lambda>y. if y = x then z else y) xs) = insert z (set xs - {x})"
  by auto

lemma distinct_map_replace:
  "distinct xs \<Longrightarrow> z \<notin> set xs - {x} \<Longrightarrow> distinct (map (\<lambda>y. if y = x then z else y) xs)"
  by (auto simp: distinct_map inj_on_def)

lemma map_of_keys: "map_of al k = Some v \<Longrightarrow> k \<in> fst ` set al"
  by (metis map_of_eq_None_iff option.distinct(1))

lemma update_region_label_success:
  assumes inv: "store_inv s"
    and old: "map_of (regions s) old_label = Some region"
    and ok: "label_ok new_label"
    and fresh: "new_label \<notin> keys s - {old_label}"
  shows "update_region_label old_label new_label s =
           (Inr (True, []),
            s\<lparr>validator := (validator s)\<lparr>region_labels := insert new_label (keys s - {old_label})\<rparr>,
              regions := AList.update new_label region (AList.delete old_label (regions s)),
              region_order := map (\<lambda>l. if l = old_label then new_label else l) (region_order s),
              selected_region := (if selected_region s = Some old_label then Some new_label
                                  else selected_region s)\<rparr>)"
proof -
  from inv have lab: "region_labels (validator s) = keys s"
    and ord: "set (region_order s) = keys s" and d: "distinct (region_order s)"
    by (simp_all add: store_inv_def)
  from old have ink: "old_label \<in> keys s" by (simp add: keys_def map_of_keys)
  have v: "validate_label new_label (region_labels (validator s) - {old_label}) = (True, [])"
    using ok fresh lab by (simp add: validate_label_True)
  have u: "update_label old_label new_label (validator s)
             = (True, (validator s)\<lparr>region_labels := insert new_label (keys s - {old_label})\<rparr>)"
    using fresh lab ink by (auto simp: update_label_def Let_def)
  have i: "list_index (region_order s) old_label
             = Inr (length (takeWhile (\<lambda>y. y \<noteq> old_label) (region_order s)))"
    using ink ord by (simp add: list_index_def)
  have m: "(region_order s)[length (takeWhile (\<lambda>y. y \<noteq> old_label) (region_order s)) := new_label]
             = map (\<lambda>l. if l = old_label then new_label else l) (region_order s)"
    using d ink ord by (simp add: list_update_index_map)
  show ?thesis
    using old v u i m by (simp add: update_region_label_def Let_def)
qed

lemma update_region_label_failure:
  assumes inv: "store_inv s"
    and bad: "map_of (regions s) old_label = None \<or> \<not> label_ok new_label
              \<or> new_label \<in> keys s - {old_label}"
  shows "\<exists>msg. update_region_label old_label new_label s = (Inr (False, msg), s)"
proof (cases "map_of (regions s) old_label")
  case None
  then show ?thesis by (simp add: update_region_label_def)
next
  case (Some region)
  from inv have lab: "region_labels (validator s) = keys s" by (simp add: store_inv_def)
  obtain b msg where v: "validate_label new_label (region_labels (validator s) - {old_label}) = (b, msg)"
    by (cases "validate_label new_label (region_labels (validator s) - {old_label})")
  from v bad Some lab have "\<not> b"
    by (cases b) (auto simp: validate_label_True)
  with v Some show ?thesis by (simp add: update_region_label_def)
qed

lemma update_region_label_inv:
  assumes inv: "store_inv s"
  shows "store_inv (snd (update_region_label old_label new_label s))"
proof (cases "map_of (regions s) old_label = None \<or> \<not> label_ok new_label
              \<or> new_label \<in> keys s - {old_label}")
  case True
  with update_region_label_failure[OF inv, of old_label new_label] inv show ?thesis by auto
next
  case False
  then obtain region where old: "map_of (regions s) old_label = Some region"
    and ok: "label_ok new_label" and fresh: "new_label \<notin> keys s - {old_label}"
    by auto
  from old have ink: "old_label \<in> keys s" by (simp add: keys_def map_of_keys)
  from old have mem: "(old_label, region) \<in> set (regions s)" by (rule map_of_SomeD)
  from inv have ord: "set (region_order s) = keys s" and d: "distinct (region_order s)"
    and dk: "distinct (map fst (regions s))"
    and al: "\<forall>(l, r) \<in> set (regions s). label_ok l \<and> normalized (coords r)"
    and sel: "\<forall>l. selected_region s = Some l \<longrightarrow> l \<in> keys s"
    by (simp_all add: store_inv_def)
  let ?rs = "AList.update new_label region (AList.delete old_label (regions s))"
  have k: "fst ` set ?rs = insert new_label (keys s - {old_label})"
    by (simp add: keys_update keys_delete keys_def)
  have dk': "distinct (map fst ?rs)"
    using dk by (simp add: distinct_update distinct_delete)
  have al': "\<forall>(l, r) \<in> set ?rs. label_ok l \<and> normalized (coords r)"
    using set_update_subset[of new_label region "AList.delete old_label (regions s)"]
      set_delete_subset[of old_label "regions s"] al mem ok
    by fastforce
  have o1: "set (map (\<lambda>l. if l = old_label then new_label else l) (region_order s))
              = insert new_label (keys s - {old_label})"
    using ink ord set_map_replace[of old_label "region_order s" new_label] by simp
  have o2: "distinct (map (\<lambda>l. if l = old_label then new_label else l) (region_order s))"
    using d fresh ord by (simp add: distinct_map_replace)
  define s' where "s' = snd (update_region_label old_label new_label s)"
  have r: "regions s' = ?rs"
    and o: "region_order s' = map (\<lambda>l. if l = old_label then new_label else l) (region_order s)"
    and v: "region_labels (validator s') = insert new_label (keys s - {old_label})"
    and sl: "selected_region s' = (if selected_region s = Some old_label then Some new_label
                                   else selected_region s)"
    by (simp_all add: s'_def update_region_label_success[OF inv old ok fresh])
  have k': "keys s' = insert new_label (keys s - {old_label})"
    using k by (simp add: keys_def r)
  have sel': "\<forall>l. selected_region s' = Some l \<longrightarrow> l \<in> keys s'"
    unfolding sl k' using sel by (auto split: if_splits)
  have "store_inv s'"
    unfolding store_inv_def
    using dk' al' o1 o2 sel' k' by (simp only: r o v)
  then show ?thesis by (simp add: s'_def)
qed


lemma update_region_coords_inv:
  assumes inv: "store_inv s"
  shows "store_inv (snd (update_region_coords label cs canvas s))"
proof (cases "map_of (regions s) label")
  case None
  with inv show ?thesis by (simp add: update_region_coords_def)
next
  case (Some region)
  show ?thesis
  proof (cases "normalize_rect_star cs")
    case (Inl e)
    with Some inv show ?thesis by (simp add: update_region_coords_def)
  next
    case (Inr r)
    then have n: "normalized r" by (rule normalize_rect_star_normalized)
    from Some have ink: "label \<in> fst ` set (regions s)" by (rule map_of_keys)
    from Some have mem: "(label, region) \<in> set (regions s)" by (rule map_of_SomeD)
    let ?rs = "AList.update label (region\<lparr>coords := r\<rparr>) (regions s)"
    have k: "fst ` set ?rs = fst ` set (regions s)"
      using ink by (auto simp: keys_update)
    from inv have al0: "\<forall>(l, r) \<in> set (regions s). label_ok l \<and> normalized (coords r)"
      by (simp add: store_inv_def)
    with mem have "label_ok label" by blast
    with n have "label_ok label \<and> normalized (coords (region\<lparr>coords := r\<rparr>))" by simp
    with al0 have al: "\<forall>(l, r) \<in> set ?rs. label_ok l \<and> normalized (coords r)"
      by (intro all_update) simp_all
    have s': "snd (update_region_coords label cs canvas s) = s\<lparr>regions := ?rs\<rparr>"
      using Some Inr by (simp add: update_region_coords_def)
    show ?thesis
      unfolding s' using inv k al
      by (simp add: store_inv_def keys_def distinct_update)
  qed
qed

lemma remove_region_inv:
  assumes inv: "store_inv s"
  shows "store_inv (snd (remove_region label canvas s))"
proof (cases "map_of (regions s) label")
  case None
  with inv show ?thesis by (simp add: remove_region_def)
next
  case (Some region)
  from Some have ink: "label \<in> fst ` set (regions s)" by (rule map_of_keys)
  from inv have ord: "set (region_order s) = fst ` set (regions s)"
    and d: "distinct (region_order s)"
    and lab: "region_labels (validator s) = fst ` set (regions s)"
    by (simp_all add: store_inv_def keys_def)
  let ?rs = "AList.delete label (regions s)"
  have al: "\<forall>(l, r) \<in> set ?rs. label_ok l \<and> normalized (coords r)"
    using set_delete_subset[of label "regions s"] inv by (fastforce simp: store_inv_def)
  have s': "snd (remove_region label canvas s)
              = s\<lparr>regions := ?rs, region_order := remove1 label (region_order s),
                   validator := (validator s)\<lparr>region_labels := region_labels (validator s) - {label}\<rparr>,
                   selected_region := (if selected_region s = Some label then None
                                       else selected_region s)\<rparr>"
    using Some ink ord lab by (simp add: remove_region_def Let_def remove_label_def)
  show ?thesis
    unfolding s' using inv al d
    by (auto simp: store_inv_def keys_def distinct_delete keys_delete split: option.splits)
qed

lemma mset_pop_insert:
  assumes "i < length xs" "j < length xs"
  shows "mset (take j (take i xs @ drop (Suc i) xs) @ [xs ! i]
               @ drop j (take i xs @ drop (Suc i) xs)) = mset xs"
proof -
  let ?p = "take i xs @ drop (Suc i) xs"
  have "mset (take j ?p @ [xs ! i] @ drop j ?p) = mset (take j ?p @ drop j ?p) + {#xs ! i#}"
    by simp
  also have "\<dots> = mset ?p + {#xs ! i#}" by (simp only: append_take_drop_id)
  also have "\<dots> = mset (take i xs @ xs ! i # drop (Suc i) xs)" by simp
  also have "\<dots> = mset xs" using assms(1) by (simp only: id_take_nth_drop[symmetric])
  finally show ?thesis .
qed

lemma move_region_mset:
  "mset (region_order (snd (move_region from_index to_index s))) = mset (region_order s)"
proof (cases "0 \<le> from_index \<and> from_index < int (length (region_order s))
              \<and> 0 \<le> to_index \<and> to_index < int (length (region_order s))")
  case False
  then show ?thesis by (simp add: move_region_def Let_def)
next
  case True
  then have "nat from_index < length (region_order s)" "nat to_index < length (region_order s)"
    by auto
  from mset_pop_insert[OF this] True show ?thesis
    by (simp add: move_region_def Let_def)
qed

lemma move_region_other:
  "regions (snd (move_region i j s)) = regions s"
  "validator (snd (move_region i j s)) = validator s"
  "selected_region (snd (move_region i j s)) = selected_region s"
  by (simp_all add: move_region_def Let_def)

lemma move_region_inv:
  assumes inv: "store_inv s"
  shows "store_inv (snd (move_region from_index to_index s))"
proof -
  have m: "mset (region_order (snd (move_region from_index to_index s))) = mset (region_order s)"
    by (rule move_region_mset)
  have "distinct (region_order (snd (move_region from_index to_index s)))"
    using mset_eq_imp_distinct_iff[OF m] inv by (simp add: store_inv_def)
  moreover have "set (region_order (snd (move_region from_index to_index s))) = set (region_order s)"
    using m by (rule mset_eq_setD)
  ultimately show ?thesis
    using inv by (simp add: store_inv_def keys_def move_region_other)
qed

lemma select_region_inv:
  assumes inv: "store_inv s"
  shows "store_inv (snd (select_region label canvas s))"
proof (cases "map_of (regions s) label")
  case None
  with inv show ?thesis by (simp add: select_region_def)
next
  case (Some region)
  then have "label \<in> fst ` set (regions s)" by (rule map_of_keys)
  with Some inv show ?thesis by (simp add: select_region_def store_inv_def keys_def)
qed

lemma clear_selection_inv: "store_inv s \<Longrightarrow> store_inv (clear_selection canvas s)"
  by (simp add: clear_selection_def store_inv_def keys_def)

lemma clear_all_regions_inv: "store_inv (clear_all_regions canvas s)"
  by (simp add: clear_all_regions_def store_inv_def keys_def clear_labels_def)

text \<open>Redrawing touches the rectangle ids only.\<close>

lemma update_rect_id_same:
  "map_of al k = Some region \<Longrightarrow>
     map (\<lambda>(l, r). (l, coords r)) (AList.update k (region\<lparr>rect_id := x\<rparr>) al)
       = map (\<lambda>(l, r). (l, coords r)) al"
  by (induction al) (auto split: if_splits)

lemma redraw_fold_same:
  "map (\<lambda>(l, r). (l, coords r))
     (foldl (\<lambda>rs label. case map_of rs label of None \<Rightarrow> rs
               | Some region \<Rightarrow> AList.update label (region\<lparr>rect_id := Some (c label)\<rparr>) rs) rs ls)
     = map (\<lambda>(l, r). (l, coords r)) rs"
proof (induction ls arbitrary: rs)
  case Nil
  then show ?case by simp
next
  case (Cons a ls)
  then show ?case by (cases "map_of rs a") (simp_all add: update_rect_id_same)
qed

lemma store_inv_coords_only:
  assumes "map (\<lambda>(l, r). (l, coords r)) (regions s') = map (\<lambda>(l, r). (l, coords r)) (regions s)"
    and "region_order s' = region_order s" "validator s' = validator s"
    and "selected_region s' = selected_region s"
    and "store_inv s"
  shows "store_inv s'"
proof -
  let ?g = "\<lambda>(l, r). (l, coords r) :: string \<times> rect"
  have f: "map fst (regions t) = map fst (map ?g (regions t))" for t :: region_manager
    by (simp add: case_prod_unfold comp_def)
  have a: "(\<forall>(l, r) \<in> set (regions t). label_ok l \<and> normalized (coords r))
            \<longleftrightarrow> (\<forall>(l, c) \<in> set (map ?g (regions t)). label_ok l \<and> normalized c)"
    for t :: region_manager
    by (auto simp: case_prod_unfold)
  have k: "map fst (regions s') = map fst (regions s)"
    using assms(1) f[of s] f[of s'] by simp
  then have k2: "fst ` set (regions s') = fst ` set (regions s)"
    by (metis image_set)
  show ?thesis
    using assms(2-5) k k2 a[of s] a[of s'] assms(1)
    by (simp add: store_inv_def keys_def)
qed

lemma redraw_all_regions_inv: "store_inv s \<Longrightarrow> store_inv (redraw_all_regions canvas s)"
  by (cases canvas)
     (auto simp: redraw_all_regions_def redraw_fold_same intro: store_inv_coords_only[where s = s])

lemma load_loop_inv:
  "store_inv s \<Longrightarrow> store_inv (snd (load_loop regions_data canvas order n s))"
proof (induction order arbitrary: n s)
  case Nil
  then show ?case by simp
next
  case (Cons label rest)
  show ?case
  proof (cases "map_of regions_data label")
    case None
    with Cons show ?thesis by simp
  next
    case (Some region_info)
    show ?thesis
    proof (cases region_info)
      case None
      with Some Cons.prems show ?thesis by simp
    next
      case (Some cs)
      obtain res s' where a: "add_region label cs canvas s = (res, s')"
        by (cases "add_region label cs canvas s")
      have i: "store_inv s'"
        using add_region_inv[OF Cons.prems, of label cs canvas] a by simp
      show ?thesis
        using \<open>map_of regions_data label = Some region_info\<close> Some a i Cons.IH
        by (cases res) (auto split: prod.splits)
    qed
  qed
qed

lemma load_from_file_inv:
  "store_inv s \<Longrightarrow> store_inv (snd (load_from_file filename canvas d s))"
proof (cases "d filename")
  case (Parsed data)
  assume "store_inv s"
  let ?s0 = "clear_all_regions canvas s"
  let ?rd = "case cfg_regions data of None \<Rightarrow> [] | Some r \<Rightarrow> r"
  let ?or = "case cfg_order data of None \<Rightarrow> [] | Some l \<Rightarrow> l"
  have "store_inv (snd (load_loop ?rd canvas ?or 0 ?s0))"
    by (rule load_loop_inv) (rule clear_all_regions_inv)
  with Parsed show ?thesis
    by (auto simp: load_from_file_def Let_def split: prod.splits sum.splits)
qed (simp_all add: load_from_file_def)

lemma reachable_store_inv: "reachable s \<Longrightarrow> store_inv s"
proof (induction rule: reachable.induct)
  case reach_init
  show ?case by (rule store_inv_init)
qed (simp_all add: add_region_inv update_region_label_inv update_region_coords_inv
       remove_region_inv move_region_inv select_region_inv clear_selection_inv
       redraw_all_regions_inv clear_all_regions_inv load_from_file_inv)

section \<open>Adding regions and the ordering invariant\<close>

lemma update_new_key: "k \<notin> fst ` set al \<Longrightarrow> AList.update k v al = al @ [(k, v)]"
  by (induction al) auto

lemma add_region_outcome:
  assumes inv: "store_inv s"
  shows "add_region label [x0, y0, x1, y1] canvas s =
     (if label = [] then (Inr (False, ''Label cannot be empty''), s)
      else if strip label = [] then (Inr (False, ''Label cannot be only whitespace''), s)
      else if length label > 100 then (Inr (False, ''Label too long (max 100 characters)''), s)
      else if label \<in> keys s then (Inr (False, ''Label already exists''), s)
      else (Inr (True, []),
            s\<lparr>validator := (validator s)\<lparr>region_labels := insert label (region_labels (validator s))\<rparr>,
              regions := regions s @ [(label, \<lparr>coords = normalize_rect x0 y0 x1 y1,
                                               rect_id = map_option (\<lambda>c. c label) canvas\<rparr>)],
              region_order := region_order s @ [label]\<rparr>))"
proof -
  from inv have lab: "region_labels (validator s) = keys s" by (simp add: store_inv_def)
  show ?thesis
  proof (cases "label \<in> keys s")
    case True
    then have "region_labels (validator s) \<noteq> {}" using lab by auto
    with True lab show ?thesis
      by (simp add: add_region_def validate_label_def)
  next
    case False
    then have "AList.update label v (regions s) = regions s @ [(label, v)]" for v
      by (simp add: keys_def update_new_key)
    with False lab show ?thesis
      by (simp add: add_region_def validate_label_def normalize_rect_star_def add_label_def)
  qed
qed

text \<open>
  C2: in every reachable store, \<open>add_region\<close> with a four-element coordinate tuple
  returns the specific failure and leaves the store untouched when the label is empty,
  only whitespace, longer than 100 characters or already a key; otherwise it succeeds,
  stores the min/max-normalized box (lower corner first on both axes, whatever the drag
  direction) and appends the label at the end of the dict and of the order list. A second
  \<open>add_region\<close> with a label that was just added fails with the duplicate-label message
  and leaves the store as the first call left it.
\<close>

theorem add_region_validates:
  assumes "reachable s"
  shows "add_region label [x0, y0, x1, y1] canvas s =
     (if label = [] then (Inr (False, ''Label cannot be empty''), s)
      else if strip label = [] then (Inr (False, ''Label cannot be only whitespace''), s)
      else if length label > 100 then (Inr (False, ''Label too long (max 100 characters)''), s)
      else if label \<in> keys s then (Inr (False, ''Label already exists''), s)
      else (Inr (True, []),
            s\<lparr>validator := (validator s)\<lparr>region_labels := insert label (region_labels (validator s))\<rparr>,
              regions := regions s @ [(label, \<lparr>coords = (min x0 x1, min y0 y1, max x0 x1, max y0 y1),
                                               rect_id = map_option (\<lambda>c. c label) canvas\<rparr>)],
              region_order := region_order s @ [label]\<rparr>))
   \<and> normalized (min x0 x1, min y0 y1, max x0 x1, max y0 y1)
   \<and> (fst (add_region label [x0, y0, x1, y1] canvas s) = Inr (True, []) \<longrightarrow>
        add_region label [x0', y0', x1', y1'] canvas' (snd (add_region label [x0, y0, x1, y1] canvas s))
          = (Inr (False, ''Label already exists''), snd (add_region label [x0, y0, x1, y1] canvas s)))"
proof -
  from assms have inv: "store_inv s" by (rule reachable_store_inv)
  have first: "add_region label [x0, y0, x1, y1] canvas s =
     (if label = [] then (Inr (False, ''Label cannot be empty''), s)
      else if strip label = [] then (Inr (False, ''Label cannot be only whitespace''), s)
      else if length label > 100 then (Inr (False, ''Label too long (max 100 characters)''), s)
      else if label \<in> keys s then (Inr (False, ''Label already exists''), s)
      else (Inr (True, []),
            s\<lparr>validator := (validator s)\<lparr>region_labels := insert label (region_labels (validator s))\<rparr>,
              regions := regions s @ [(label, \<lparr>coords = (min x0 x1, min y0 y1, max x0 x1, max y0 y1),
                                               rect_id = map_option (\<lambda>c. c label) canvas\<rparr>)],
              region_order := region_order s @ [label]\<rparr>))"
    using add_region_outcome[OF inv, of label x0 y0 x1 y1 canvas]
    by (simp only: normalize_rect_def)
  have n: "normalized (min x0 x1, min y0 y1, max x0 x1, max y0 y1)"
    using normalized_normalize_rect[of x0 y0 x1 y1] by (simp only: normalize_rect_def)
  have second: "add_region label [x0', y0', x1', y1'] canvas' (snd (add_region label [x0, y0, x1, y1] canvas s))
          = (Inr (False, ''Label already exists''), snd (add_region label [x0, y0, x1, y1] canvas s))"
    if ok: "fst (add_region label [x0, y0, x1, y1] canvas s) = Inr (True, [])"
  proof -
    let ?s1 = "snd (add_region label [x0, y0, x1, y1] canvas s)"
    have inv1: "store_inv ?s1" using inv by (rule add_region_inv)
    from ok first have c: "label \<noteq> []" "strip label \<noteq> []" "\<not> length label > 100" "label \<notin> keys s"
      by (auto split: if_splits)
    with first have "label \<in> keys ?s1" by (simp add: keys_def)
    with c show ?thesis
      using add_region_outcome[OF inv1, of label x0' y0' x1' y1' canvas'] by simp
  qed
  from first n second show ?thesis by blast
qed


theorem add_region_validates_witness:
  "reachable RegionManager_init
   \<and> add_region ''A'' [10, 20, 0, 5] None RegionManager_init
       = (Inr (True, []),
          \<lparr>validator = \<lparr>file_paths = {}, region_labels = {''A''}\<rparr>,
           regions = [(''A'', \<lparr>coords = (0, 5, 10, 20), rect_id = None\<rparr>)],
           region_order = [''A''], selected_region = None\<rparr>)
   \<and> add_region ''A'' [1, 2, 3, 4] None (snd (add_region ''A'' [10, 20, 0, 5] None RegionManager_init))
       = (Inr (False, ''Label already exists''),
          snd (add_region ''A'' [10, 20, 0, 5] None RegionManager_init))"
proof -
  note t = add_region_validates[OF reach_init, of "''A''" 10 20 0 5 None 1 2 3 4 None]
  have a: "add_region ''A'' [10, 20, 0, 5] None RegionManager_init
       = (Inr (True, []),
          \<lparr>validator = \<lparr>file_paths = {}, region_labels = {''A''}\<rparr>,
           regions = [(''A'', \<lparr>coords = (0, 5, 10, 20), rect_id = None\<rparr>)],
           region_order = [''A''], selected_region = None\<rparr>)"
    using t[THEN conjunct1]
    by (simp add: keys_def RegionManager_init_def DuplicateValidator_init_def strip_def
          py_isspace_def)
  have b: "add_region ''A'' [1, 2, 3, 4] None (snd (add_region ''A'' [10, 20, 0, 5] None RegionManager_init))
       = (Inr (False, ''Label already exists''),
          snd (add_region ''A'' [10, 20, 0, 5] None RegionManager_init))"
    using t[THEN conjunct2, THEN conjunct2] a by simp
  from reach_init a b show ?thesis by blast
qed

text \<open>
  C1: in every store reachable from a fresh manager by the public methods, the order list
  is a permutation of the keys of \<open>regions\<close>, has no duplicate (nor has the dict), and
  the selected label, when there is one, is a key of \<open>regions\<close>.
\<close>

theorem order_is_permutation_of_keys:
  assumes "reachable s"
  shows "mset (region_order s) = mset (map fst (regions s))
         \<and> distinct (region_order s)
         \<and> distinct (map fst (regions s))
         \<and> (\<forall>l. selected_region s = Some l \<longrightarrow> l \<in> fst ` set (regions s))"
proof -
  from assms have inv: "store_inv s" by (rule reachable_store_inv)
  then have d1: "distinct (region_order s)" and d2: "distinct (map fst (regions s))"
    and e: "set (region_order s) = set (map fst (regions s))"
    and sel: "\<forall>l. selected_region s = Some l \<longrightarrow> l \<in> fst ` set (regions s)"
    by (simp_all add: store_inv_def keys_def)
  have "mset (region_order s) = mset (map fst (regions s))"
    using set_eq_iff_mset_eq_distinct[OF d1 d2] e by blast
  with d1 d2 sel show ?thesis by blast
qed

theorem order_is_permutation_of_keys_witness:
  "reachable (snd (select_region ''B'' None
              (snd (add_region ''B'' [0, 0, 1, 1] None
                (snd (add_region ''A'' [0, 0, 10, 10] None RegionManager_init))))))
   \<and> region_order (snd (select_region ''B'' None
              (snd (add_region ''B'' [0, 0, 1, 1] None
                (snd (add_region ''A'' [0, 0, 10, 10] None RegionManager_init)))))) = [''A'', ''B'']
   \<and> mset [''A'', ''B''] = mset (map fst (regions (snd (select_region ''B'' None
              (snd (add_region ''B'' [0, 0, 1, 1] None
                (snd (add_region ''A'' [0, 0, 10, 10] None RegionManager_init))))))))
   \<and> selected_region (snd (select_region ''B'' None
              (snd (add_region ''B'' [0, 0, 1, 1] None
                (snd (add_region ''A'' [0, 0, 10, 10] None RegionManager_init)))))) = Some ''B''"
proof -
  let ?s = "snd (select_region ''B'' None
              (snd (add_region ''B'' [0, 0, 1, 1] None
                (snd (add_region ''A'' [0, 0, 10, 10] None RegionManager_init)))))"
  have r: "reachable ?s"
    by (intro reach_select reach_add reach_init)
  have o: "region_order ?s = [''A'', ''B'']"
    by (simp add: select_region_def add_region_def validate_label_def strip_def py_isspace_def
          normalize_rect_star_def add_label_def RegionManager_init_def DuplicateValidator_init_def)
  have sl: "selected_region ?s = Some ''B''"
    by (simp add: select_region_def add_region_def validate_label_def strip_def py_isspace_def
          normalize_rect_star_def add_label_def RegionManager_init_def DuplicateValidator_init_def)
  from order_is_permutation_of_keys[OF r] o r sl show ?thesis by simp
qed

section \<open>Renaming a region\<close>

lemma map_replace_same: "map (\<lambda>l. if l = x then x else l) xs = xs"
  by (induction xs) auto

text \<open>
  C6: in every reachable store \<open>update_region_label\<close> is atomic. When \<open>old_label\<close> is a
  key and \<open>new_label\<close> passes the content checks and is no key other than \<open>old_label\<close>,
  it succeeds: the entry moves to the new key, the label is replaced at its own position
  in the order list, the validator swaps the two labels and the selection follows the
  rename. In every other case it returns a failure and the store (regions, order,
  validator, selection) is unchanged. Renaming the label of an existing region to itself
  succeeds and leaves the order list as it was.
\<close>

theorem update_region_label_atomic:
  assumes "reachable s"
  shows "(map_of (regions s) old_label = Some region \<and> label_ok new_label
            \<and> new_label \<notin> keys s - {old_label} \<longrightarrow>
          update_region_label old_label new_label s =
            (Inr (True, []),
             s\<lparr>validator := (validator s)\<lparr>region_labels := insert new_label (keys s - {old_label})\<rparr>,
               regions := AList.update new_label region (AList.delete old_label (regions s)),
               region_order := map (\<lambda>l. if l = old_label then new_label else l) (region_order s),
               selected_region := (if selected_region s = Some old_label then Some new_label
                                   else selected_region s)\<rparr>))
       \<and> (map_of (regions s) old_label = None \<or> \<not> label_ok new_label
            \<or> new_label \<in> keys s - {old_label} \<longrightarrow>
          (\<exists>msg. update_region_label old_label new_label s = (Inr (False, msg), s)))
       \<and> (old_label \<in> keys s \<longrightarrow>
          fst (update_region_label old_label old_label s) = Inr (True, [])
          \<and> region_order (snd (update_region_label old_label old_label s)) = region_order s)"
proof -
  from assms have inv: "store_inv s" by (rule reachable_store_inv)
  have a: "update_region_label old_label new_label s =
            (Inr (True, []),
             s\<lparr>validator := (validator s)\<lparr>region_labels := insert new_label (keys s - {old_label})\<rparr>,
               regions := AList.update new_label region (AList.delete old_label (regions s)),
               region_order := map (\<lambda>l. if l = old_label then new_label else l) (region_order s),
               selected_region := (if selected_region s = Some old_label then Some new_label
                                   else selected_region s)\<rparr>)"
    if "map_of (regions s) old_label = Some region" "label_ok new_label"
       "new_label \<notin> keys s - {old_label}"
    using update_region_label_success[OF inv that] .
  have b: "\<exists>msg. update_region_label old_label new_label s = (Inr (False, msg), s)"
    if "map_of (regions s) old_label = None \<or> \<not> label_ok new_label
          \<or> new_label \<in> keys s - {old_label}"
    using update_region_label_failure[OF inv that] .
  have c: "fst (update_region_label old_label old_label s) = Inr (True, [])
          \<and> region_order (snd (update_region_label old_label old_label s)) = region_order s"
    if k: "old_label \<in> keys s"
  proof -
    from k obtain r where m: "map_of (regions s) old_label = Some r"
      by (metis keys_def map_of_eq_None_iff not_Some_eq)
    then have "(old_label, r) \<in> set (regions s)" by (rule map_of_SomeD)
    with inv have ok: "label_ok old_label" by (auto simp: store_inv_def)
    have f: "old_label \<notin> keys s - {old_label}" by simp
    show ?thesis
      unfolding update_region_label_success[OF inv m ok f]
      by (simp add: map_replace_same)
  qed
  from a b c show ?thesis by blast
qed

theorem update_region_label_atomic_witness:
  "reachable (snd (select_region ''A'' None
              (snd (add_region ''B'' [0, 0, 1, 1] None
                (snd (add_region ''A'' [0, 0, 10, 10] None RegionManager_init))))))
   \<and> update_region_label ''A'' ''C'' (snd (select_region ''A'' None
              (snd (add_region ''B'' [0, 0, 1, 1] None
                (snd (add_region ''A'' [0, 0, 10, 10] None RegionManager_init))))))
       = (Inr (True, []),
          \<lparr>validator = \<lparr>file_paths = {}, region_labels = {''C'', ''B''}\<rparr>,
           regions = [(''B'', \<lparr>coords = (0, 0, 1, 1), rect_id = None\<rparr>),
                      (''C'', \<lparr>coords = (0, 0, 10, 10), rect_id = None\<rparr>)],
           region_order = [''C'', ''B''], selected_region = Some ''C''\<rparr>)
   \<and> (\<exists>msg. update_region_label ''A'' ''B'' (snd (select_region ''A'' None
              (snd (add_region ''B'' [0, 0, 1, 1] None
                (snd (add_region ''A'' [0, 0, 10, 10] None RegionManager_init))))))
       = (Inr (False, msg), snd (select_region ''A'' None
              (snd (add_region ''B'' [0, 0, 1, 1] None
                (snd (add_region ''A'' [0, 0, 10, 10] None RegionManager_init)))))))
   \<and> region_order (snd (update_region_label ''A'' ''A'' (snd (select_region ''A'' None
              (snd (add_region ''B'' [0, 0, 1, 1] None
                (snd (add_region ''A'' [0, 0, 10, 10] None RegionManager_init)))))))) = [''A'', ''B'']"
proof -
  let ?s = "snd (select_region ''A'' None
              (snd (add_region ''B'' [0, 0, 1, 1] None
                (snd (add_region ''A'' [0, 0, 10, 10] None RegionManager_init)))))"
  have r: "reachable ?s"
    by (intro reach_select reach_add reach_init)
  have e: "?s = \<lparr>validator = \<lparr>file_paths = {}, region_labels = {''B'', ''A''}\<rparr>,
           regions = [(''A'', \<lparr>coords = (0, 0, 10, 10), rect_id = None\<rparr>),
                      (''B'', \<lparr>coords = (0, 0, 1, 1), rect_id = None\<rparr>)],
           region_order = [''A'', ''B''], selected_region = Some ''A''\<rparr>"
    by (simp add: select_region_def add_region_def validate_label_def strip_def py_isspace_def
          normalize_rect_star_def normalize_rect_def add_label_def RegionManager_init_def
          DuplicateValidator_init_def)
  have okC: "label_ok ''C''" by (simp add: label_ok_def strip_def py_isspace_def)
  note t = update_region_label_atomic[OF r]
  have a: "update_region_label ''A'' ''C'' ?s
       = (Inr (True, []),
          \<lparr>validator = \<lparr>file_paths = {}, region_labels = {''C'', ''B''}\<rparr>,
           regions = [(''B'', \<lparr>coords = (0, 0, 1, 1), rect_id = None\<rparr>),
                      (''C'', \<lparr>coords = (0, 0, 10, 10), rect_id = None\<rparr>)],
           region_order = [''C'', ''B''], selected_region = Some ''C''\<rparr>)"
    using t[of "''A''" "\<lparr>coords = (0, 0, 10, 10), rect_id = None\<rparr>" "''C''", THEN conjunct1] okC
    unfolding e by (auto simp: keys_def)
  have b: "\<exists>msg. update_region_label ''A'' ''B'' ?s = (Inr (False, msg), ?s)"
    using t[of "''A''" undefined "''B''", THEN conjunct2, THEN conjunct1]
    unfolding e by (simp add: keys_def)
  have c: "region_order (snd (update_region_label ''A'' ''A'' ?s)) = [''A'', ''B'']"
    using t[of "''A''" undefined "''A''", THEN conjunct2, THEN conjunct2]
    unfolding e by (simp add: keys_def)
  from r a b c show ?thesis by blast
qed

section \<open>The loading loop\<close>

lemma first_occurrences_Nil: "first_occurrences [] = []"
  by (simp add: first_occurrences_def)

lemma remdups_snoc: "remdups (ys @ [x]) = remdups (removeAll x ys) @ [x]"
  by (induction ys) auto

lemma first_occurrences_Cons:
  "first_occurrences (x # xs) = x # first_occurrences (removeAll x xs)"
  by (simp add: first_occurrences_def remdups_snoc removeAll_filter_not_eq rev_filter)

lemma first_occurrences_distinct: "distinct xs \<Longrightarrow> first_occurrences xs = xs"
  by (simp add: first_occurrences_def distinct_remdups_id)

lemma add_region_cases:
  assumes inv: "store_inv t"
  shows "add_region l cs canvas t =
     (if \<not> label_ok l \<or> l \<in> keys t
      then (Inr (False, snd (validate_label l (region_labels (validator t)))), t)
      else (case normalize_rect_star cs of
              Inl e \<Rightarrow> (Inl e, t)
            | Inr r \<Rightarrow>
                (Inr (True, []),
                 t\<lparr>validator := (validator t)\<lparr>region_labels := insert l (region_labels (validator t))\<rparr>,
                   regions := regions t @ [(l, \<lparr>coords = r, rect_id = map_option (\<lambda>c. c l) canvas\<rparr>)],
                   region_order := region_order t @ [l]\<rparr>)))"
proof -
  from inv have lab: "region_labels (validator t) = keys t" by (simp add: store_inv_def)
  obtain b msg where v: "validate_label l (region_labels (validator t)) = (b, msg)"
    by (cases "validate_label l (region_labels (validator t))")
  show ?thesis
  proof (cases "\<not> label_ok l \<or> l \<in> keys t")
    case True
    with v lab have "\<not> b" by (cases b) (auto simp: validate_label_True)
    with v True show ?thesis by (simp add: add_region_def)
  next
    case False
    with lab have "validate_label l (region_labels (validator t)) = (True, [])"
      by (simp add: validate_label_True)
    moreover from False have "AList.update l v (regions t) = regions t @ [(l, v)]" for v
      by (simp add: keys_def update_new_key)
    ultimately show ?thesis
      using False lab by (simp add: add_region_def add_label_def split: sum.splits)
  qed
qed


lemma keys_add_fields:
  "keys (t\<lparr>validator := v, regions := regions t @ [(l, r)], region_order := ro\<rparr>) = insert l (keys t)"
  by (simp add: keys_def)

lemma length4: "length cs = 4 \<Longrightarrow> \<exists>x0 y0 x1 y1. cs = [x0, y0, x1, y1]"
proof -
  assume "length cs = 4"
  then have "length cs = Suc (Suc (Suc (Suc 0)))" by simp
  then show ?thesis by (auto simp: length_Suc_conv)
qed

lemma removeAll_filter_seen:
  "removeAll l (filter (\<lambda>x. listed rd x \<and> x \<notin> S) rest)
     = filter (\<lambda>x. listed rd x \<and> x \<notin> insert l S) rest"
  by (induction rest) auto

lemma load_loop_raise_free:
  assumes "store_inv t"
    and "\<forall>l. listed rd l \<longrightarrow> (l \<in> S \<longleftrightarrow> l \<in> keys t)"
    and "\<forall>i<length order. \<not> entry_raises rd (S \<union> set (take i order)) (order ! i)"
  shows "load_loop rd canvas order n t =
     (Inr (n + length (first_occurrences (filter (\<lambda>l. listed rd l \<and> l \<notin> S) order))),
      t\<lparr>validator := (validator t)\<lparr>region_labels := region_labels (validator t)
              \<union> set (first_occurrences (filter (\<lambda>l. listed rd l \<and> l \<notin> S) order))\<rparr>,
        regions := regions t
              @ map (\<lambda>l. (l, \<lparr>coords = the (file_box rd l), rect_id = map_option (\<lambda>c. c l) canvas\<rparr>))
                  (first_occurrences (filter (\<lambda>l. listed rd l \<and> l \<notin> S) order)),
        region_order := region_order t
              @ first_occurrences (filter (\<lambda>l. listed rd l \<and> l \<notin> S) order)\<rparr>)"
  using assms
proof (induction order arbitrary: n t S)
  case Nil
  then show ?case by (simp add: first_occurrences_Nil)
next
  case (Cons l rest)
  let ?P = "\<lambda>x. listed rd x \<and> x \<notin> S"
  let ?P' = "\<lambda>x. listed rd x \<and> x \<notin> insert l S"
  from Cons.prems(3) have nr0: "\<not> entry_raises rd S l" by fastforce
  have nr': "\<forall>i<length rest. \<not> entry_raises rd (insert l S \<union> set (take i rest)) (rest ! i)"
  proof (intro allI impI)
    fix i assume "i < length rest"
    then have "Suc i < length (l # rest)" by simp
    with Cons.prems(3) have "\<not> entry_raises rd (S \<union> set (take (Suc i) (l # rest))) ((l # rest) ! Suc i)"
      by blast
    then show "\<not> entry_raises rd (insert l S \<union> set (take i rest)) (rest ! i)" by simp
  qed
  show ?case
  proof (cases "?P l")
    case True
    then have li: "map_of rd l \<noteq> None" and ok: "label_ok l" and nS: "l \<notin> S"
      by (simp_all add: listed_def)
    from True Cons.prems(2) have nk: "l \<notin> keys t" by blast
    from li nr0 ok nS obtain cs where e: "map_of rd l = Some (Some cs)" and len: "length cs = 4"
      by (auto simp: entry_raises_def split: option.splits)
    from length4[OF len] obtain x0 y0 x1 y1 where cs: "cs = [x0, y0, x1, y1]" by blast
    have nz: "normalize_rect_star cs = Inr (normalize_rect x0 y0 x1 y1)"
      by (simp add: cs normalize_rect_star_def)
    have fb: "the (file_box rd l) = normalize_rect x0 y0 x1 y1"
      by (simp add: file_box_def e nz)
    let ?t1 = "t\<lparr>validator := (validator t)\<lparr>region_labels := insert l (region_labels (validator t))\<rparr>,
                 regions := regions t @ [(l, \<lparr>coords = normalize_rect x0 y0 x1 y1,
                                             rect_id = map_option (\<lambda>c. c l) canvas\<rparr>)],
                 region_order := region_order t @ [l]\<rparr>"
    have a: "add_region l cs canvas t = (Inr (True, []), ?t1)"
      using add_region_cases[OF Cons.prems(1), of l cs canvas] ok nk nz by simp
    have inv1: "store_inv ?t1"
      using add_region_inv[OF Cons.prems(1), of l cs canvas] a by simp
    have k1: "keys ?t1 = insert l (keys t)" by (rule keys_add_fields)
    have rel1: "\<forall>x. listed rd x \<longrightarrow> (x \<in> insert l S \<longleftrightarrow> x \<in> keys ?t1)"
      using Cons.prems(2) unfolding k1 by blast
    have f: "first_occurrences (filter ?P (l # rest)) = l # first_occurrences (filter ?P' rest)"
    proof -
      from True have "filter ?P (l # rest) = l # filter ?P rest" by simp
      then show ?thesis
        by (simp only: first_occurrences_Cons removeAll_filter_seen)
    qed
    have step: "load_loop rd canvas (l # rest) n t = load_loop rd canvas rest (n + 1) ?t1"
      using e a by simp
    show ?thesis
      unfolding step f Cons.IH[OF inv1 rel1 nr']
      by (simp add: fb)
  next
    case False
    have f: "first_occurrences (filter ?P (l # rest)) = first_occurrences (filter ?P' rest)"
    proof -
      have "filter ?P rest = filter ?P' rest"
        using False by (intro filter_cong) auto
      moreover from False have "filter ?P (l # rest) = filter ?P rest" by simp
      ultimately show ?thesis by (simp only:)
    qed
    have rel1: "\<forall>x. listed rd x \<longrightarrow> (x \<in> insert l S \<longleftrightarrow> x \<in> keys t)"
      using Cons.prems(2) False by blast
    have step: "load_loop rd canvas (l # rest) n t = load_loop rd canvas rest n t"
    proof (cases "map_of rd l")
      case None
      then show ?thesis by simp
    next
      case (Some e)
      with nr0 obtain cs where e: "map_of rd l = Some (Some cs)"
        by (cases e) (auto simp: entry_raises_def)
      from False e Cons.prems(2) have "\<not> label_ok l \<or> l \<in> keys t"
        by (auto simp: listed_def)
      then have "add_region l cs canvas t
                   = (Inr (False, snd (validate_label l (region_labels (validator t)))), t)"
        using add_region_cases[OF Cons.prems(1), of l cs canvas] by simp
      with e show ?thesis by simp
    qed
    show ?thesis
      unfolding step f Cons.IH[OF Cons.prems(1) rel1 nr'] ..
  qed
qed




lemma store_inv_cleared: "store_inv (clear_all_regions canvas s)"
  by (rule clear_all_regions_inv)

lemma load_from_file_raise_free:
  assumes p: "d filename = Parsed data"
    and nr: "\<forall>i<length (case cfg_order data of None \<Rightarrow> [] | Some l \<Rightarrow> l).
               \<not> entry_raises (case cfg_regions data of None \<Rightarrow> [] | Some r \<Rightarrow> r)
                    (set (take i (case cfg_order data of None \<Rightarrow> [] | Some l \<Rightarrow> l)))
                    ((case cfg_order data of None \<Rightarrow> [] | Some l \<Rightarrow> l) ! i)"
  shows "load_from_file filename canvas d s =
     ((True, Loaded (length (first_occurrences (filter
                (listed (case cfg_regions data of None \<Rightarrow> [] | Some r \<Rightarrow> r))
                (case cfg_order data of None \<Rightarrow> [] | Some l \<Rightarrow> l)))) filename),
      \<lparr>validator = (validator s)\<lparr>region_labels := set (first_occurrences (filter
                (listed (case cfg_regions data of None \<Rightarrow> [] | Some r \<Rightarrow> r))
                (case cfg_order data of None \<Rightarrow> [] | Some l \<Rightarrow> l)))\<rparr>,
       regions = map (\<lambda>l. (l, \<lparr>coords = the (file_box (case cfg_regions data of None \<Rightarrow> [] | Some r \<Rightarrow> r) l),
                               rect_id = map_option (\<lambda>c. c l) canvas\<rparr>))
                   (first_occurrences (filter
                      (listed (case cfg_regions data of None \<Rightarrow> [] | Some r \<Rightarrow> r))
                      (case cfg_order data of None \<Rightarrow> [] | Some l \<Rightarrow> l))),
       region_order = first_occurrences (filter
                (listed (case cfg_regions data of None \<Rightarrow> [] | Some r \<Rightarrow> r))
                (case cfg_order data of None \<Rightarrow> [] | Some l \<Rightarrow> l)),
       selected_region = None\<rparr>)"
proof -
  let ?rd = "case cfg_regions data of None \<Rightarrow> [] | Some r \<Rightarrow> r"
  let ?or = "case cfg_order data of None \<Rightarrow> [] | Some l \<Rightarrow> l"
  let ?t = "clear_all_regions canvas s"
  have k: "keys ?t = {}" by (simp add: keys_def clear_all_regions_def)
  have rel: "\<forall>l. listed ?rd l \<longrightarrow> (l \<in> {} \<longleftrightarrow> l \<in> keys ?t)" by (simp add: k)
  have nr': "\<forall>i<length ?or. \<not> entry_raises ?rd ({} \<union> set (take i ?or)) (?or ! i)"
    using nr by simp
  note l = load_loop_raise_free[where t = ?t and S = "{}" and canvas = canvas and n = 0,
      OF store_inv_cleared rel nr']
  show ?thesis
    using p by (simp add: load_from_file_def Let_def l) (simp add: clear_all_regions_def clear_labels_def)
qed




section \<open>Loading a configuration file\<close>








section \<open>Saving and loading again\<close>

lemma map_of_map_key: "map_of (map (\<lambda>l. (l, f l)) ls) l = (if l \<in> set ls then Some (f l) else None)"
  by (induction ls) auto

lemma normalize_rect_normalized:
  "normalized (x0, y0, x1, y1) \<Longrightarrow> normalize_rect x0 y0 x1 y1 = (x0, y0, x1, y1)"
  by (simp add: normalized_def normalize_rect_def)

lemma saved_entry:
  assumes inv: "store_inv s" and m: "map_of (regions s) l = Some region"
  shows "map_of (map (\<lambda>(label, region). (label, to_dict region)) (regions s)) l = Some (to_dict region)"
    and "\<exists>x0 y0 x1 y1. to_dict region = Some [x0, y0, x1, y1] \<and> coords region = (x0, y0, x1, y1)"
    and "file_box (map (\<lambda>(label, region). (label, to_dict region)) (regions s)) l = Some (coords region)"
    and "label_ok l"
proof -
  show e: "map_of (map (\<lambda>(label, region). (label, to_dict region)) (regions s)) l = Some (to_dict region)"
    using m by (simp add: map_of_map)
  obtain x0 y0 x1 y1 where c: "coords region = (x0, y0, x1, y1)"
    by (cases "coords region") auto
  then have t: "to_dict region = Some [x0, y0, x1, y1]" by (simp add: to_dict_def)
  with c show "\<exists>x0 y0 x1 y1. to_dict region = Some [x0, y0, x1, y1] \<and> coords region = (x0, y0, x1, y1)"
    by blast
  from m have mem: "(l, region) \<in> set (regions s)" by (rule map_of_SomeD)
  with inv have n: "normalized (coords region)" and ok: "label_ok l"
    by (auto simp: store_inv_def)
  show "label_ok l" by (rule ok)
  from n c have "normalize_rect x0 y0 x1 y1 = (x0, y0, x1, y1)"
    by (simp add: normalize_rect_normalized)
  with e t c show "file_box (map (\<lambda>(label, region). (label, to_dict region)) (regions s)) l
                     = Some (coords region)"
    by (simp add: file_box_def normalize_rect_star_def)
qed

lemma saved_absent:
  "map_of (regions s) l = None \<Longrightarrow>
     map_of (map (\<lambda>(label, region). (label, to_dict region)) (regions s)) l = None"
  by (simp add: map_of_map)

lemma load_saved:
  assumes inv: "store_inv s"
    and p: "d filename = Parsed \<lparr>cfg_regions = Some (map (\<lambda>(label, region). (label, to_dict region)) (regions s)),
                                 cfg_order = Some (region_order s)\<rparr>"
  shows "load_from_file filename canvas d t =
     ((True, Loaded (length (region_order s)) filename),
      \<lparr>validator = (validator t)\<lparr>region_labels := set (region_order s)\<rparr>,
       regions = map (\<lambda>l. (l, \<lparr>coords = coords (the (map_of (regions s) l)),
                               rect_id = map_option (\<lambda>c. c l) canvas\<rparr>)) (region_order s),
       region_order = region_order s,
       selected_region = None\<rparr>)"
proof -
  let ?rd = "map (\<lambda>(label, region). (label, to_dict region)) (regions s)"
  let ?data = "\<lparr>cfg_regions = Some ?rd, cfg_order = Some (region_order s)\<rparr>"
  from inv have ord: "set (region_order s) = fst ` set (regions s)" and d: "distinct (region_order s)"
    by (simp_all add: store_inv_def keys_def)
  have key: "\<exists>region. map_of (regions s) l = Some region" if "l \<in> set (region_order s)" for l
    using that ord by (metis map_of_eq_None_iff not_Some_eq)
  have nraise: "\<not> entry_raises ?rd S l" for S l
  proof (cases "map_of (regions s) l")
    case None
    then show ?thesis by (simp add: entry_raises_def saved_absent)
  next
    case (Some region)
    from saved_entry(1,2)[OF inv Some] show ?thesis
      by (auto simp: entry_raises_def)
  qed
  have li: "listed ?rd l" if "l \<in> set (region_order s)" for l
  proof -
    from key[OF that] obtain region where m: "map_of (regions s) l = Some region" by blast
    from saved_entry(1,4)[OF inv m] show ?thesis by (simp add: listed_def)
  qed
  then have f: "filter (listed ?rd) (region_order s) = region_order s"
    by (simp add: filter_id_conv)
  have fo: "first_occurrences (filter (listed ?rd) (region_order s)) = region_order s"
    using d by (simp add: f first_occurrences_distinct)
  have fb: "the (file_box ?rd l) = coords (the (map_of (regions s) l))"
    if "l \<in> set (region_order s)" for l
  proof -
    from key[OF that] obtain region where m: "map_of (regions s) l = Some region" by blast
    from saved_entry(3)[OF inv m] m show ?thesis by simp
  qed
  have nr: "\<forall>i<length (case cfg_order ?data of None \<Rightarrow> [] | Some l \<Rightarrow> l).
               \<not> entry_raises (case cfg_regions ?data of None \<Rightarrow> [] | Some r \<Rightarrow> r)
                    (set (take i (case cfg_order ?data of None \<Rightarrow> [] | Some l \<Rightarrow> l)))
                    ((case cfg_order ?data of None \<Rightarrow> [] | Some l \<Rightarrow> l) ! i)"
    using nraise by simp
  have m: "map (\<lambda>l. (l, \<lparr>coords = the (file_box ?rd l), rect_id = map_option (\<lambda>c. c l) canvas\<rparr>))
               (region_order s)
         = map (\<lambda>l. (l, \<lparr>coords = coords (the (map_of (regions s) l)),
                         rect_id = map_option (\<lambda>c. c l) canvas\<rparr>)) (region_order s)"
    using fb by (intro map_cong) simp_all
  show ?thesis
    unfolding load_from_file_raise_free[where d = d and filename = filename and data = ?data, OF p nr]
    by (simp add: fo m)
qed

text \<open>
  C3: for every reachable store \<open>s\<close>, loading the file that \<open>save_to_file\<close> wrote for \<open>s\<close>
  (into any store, with or without a canvas) succeeds, reports as many regions as \<open>s\<close>
  has, and gives a store with exactly the order list of \<open>s\<close>, the same labels and the same
  coordinates for every label. Rectangle ids are not part of the file. An empty store
  comes back empty, and three regions in a custom order come back in that order.
\<close>

theorem save_load_round_trip:
  assumes "reachable s" and "save_to_file filename s d = ((True, msg), d')"
  shows "fst (load_from_file filename canvas d' t)
           = (True, Loaded (length (region_order s)) filename)
       \<and> region_order (snd (load_from_file filename canvas d' t)) = region_order s
       \<and> map fst (regions (snd (load_from_file filename canvas d' t))) = region_order s
       \<and> (\<forall>l. map_option coords (map_of (regions (snd (load_from_file filename canvas d' t))) l)
                = map_option coords (map_of (regions s) l))"
proof -
  from assms(1) have inv: "store_inv s" by (rule reachable_store_inv)
  from assms(2) have p: "d' filename = Parsed \<lparr>cfg_regions = Some (map (\<lambda>(label, region). (label, to_dict region)) (regions s)),
                                 cfg_order = Some (region_order s)\<rparr>"
    by (auto simp: save_to_file_def Let_def split: if_splits)
  note l = load_saved[where d = d' and filename = filename and s = s and canvas = canvas
      and t = t, OF inv p]
  from inv have ord: "set (region_order s) = fst ` set (regions s)"
    by (simp add: store_inv_def keys_def)
  have c: "map_option coords (map_of (regions (snd (load_from_file filename canvas d' t))) l)
                = map_option coords (map_of (regions s) l)" for l
  proof (cases "map_of (regions s) l")
    case None
    then have "l \<notin> set (region_order s)" using ord by (simp add: map_of_eq_None_iff)
    with None show ?thesis by (simp add: l map_of_map_key)
  next
    case (Some region)
    then have "l \<in> set (region_order s)" using ord by (simp add: map_of_keys)
    with Some show ?thesis by (simp add: l map_of_map_key)
  qed
  have "map fst (regions (snd (load_from_file filename canvas d' t))) = region_order s"
    by (simp add: l comp_def)
  with c show ?thesis by (simp add: l)
qed


theorem save_load_round_trip_witness:
  "reachable
     \<lparr>validator = \<lparr>file_paths = {}, region_labels = {''C'', ''B'', ''A''}\<rparr>,
      regions = [(''A'', \<lparr>coords = (0, 0, 10, 10), rect_id = None\<rparr>),
                 (''B'', \<lparr>coords = (1, 2, 3, 4), rect_id = None\<rparr>),
                 (''C'', \<lparr>coords = (5, 5, 6, 9), rect_id = None\<rparr>)],
      region_order = [''C'', ''A'', ''B''], selected_region = None\<rparr>
   \<and> region_order (snd (load_from_file ''regions.json'' None
        (snd (save_to_file ''regions.json''
           \<lparr>validator = \<lparr>file_paths = {}, region_labels = {''C'', ''B'', ''A''}\<rparr>,
            regions = [(''A'', \<lparr>coords = (0, 0, 10, 10), rect_id = None\<rparr>),
                       (''B'', \<lparr>coords = (1, 2, 3, 4), rect_id = None\<rparr>),
                       (''C'', \<lparr>coords = (5, 5, 6, 9), rect_id = None\<rparr>)],
            region_order = [''C'', ''A'', ''B''], selected_region = None\<rparr> empty_disk))
        RegionManager_init))
     = [''C'', ''A'', ''B'']
   \<and> map_option coords (map_of (regions (snd (load_from_file ''regions.json'' None
        (snd (save_to_file ''regions.json''
           \<lparr>validator = \<lparr>file_paths = {}, region_labels = {''C'', ''B'', ''A''}\<rparr>,
            regions = [(''A'', \<lparr>coords = (0, 0, 10, 10), rect_id = None\<rparr>),
                       (''B'', \<lparr>coords = (1, 2, 3, 4), rect_id = None\<rparr>),
                       (''C'', \<lparr>coords = (5, 5, 6, 9), rect_id = None\<rparr>)],
            region_order = [''C'', ''A'', ''B''], selected_region = None\<rparr> empty_disk))
        RegionManager_init))) ''B'')
     = Some (1, 2, 3, 4)
   \<and> regions (snd (load_from_file ''regions.json'' None
        (snd (save_to_file ''regions.json'' RegionManager_init empty_disk))
        RegionManager_init)) = []
   \<and> region_order (snd (load_from_file ''regions.json'' None
        (snd (save_to_file ''regions.json'' RegionManager_init empty_disk))
        RegionManager_init)) = []"
proof -
  let ?s = "\<lparr>validator = \<lparr>file_paths = {}, region_labels = {''C'', ''B'', ''A''}\<rparr>,
      regions = [(''A'', \<lparr>coords = (0, 0, 10, 10), rect_id = None\<rparr>),
                 (''B'', \<lparr>coords = (1, 2, 3, 4), rect_id = None\<rparr>),
                 (''C'', \<lparr>coords = (5, 5, 6, 9), rect_id = None\<rparr>)],
      region_order = [''C'', ''A'', ''B''], selected_region = None\<rparr>"
  have e: "snd (move_region 2 0
             (snd (add_region ''C'' [6, 9, 5, 5] None
               (snd (add_region ''B'' [1, 2, 3, 4] None
                 (snd (add_region ''A'' [0, 0, 10, 10] None RegionManager_init))))))) = ?s"
    by (simp add: move_region_def add_region_def validate_label_def strip_def py_isspace_def
          normalize_rect_star_def normalize_rect_def add_label_def RegionManager_init_def
          DuplicateValidator_init_def Let_def)
  have "reachable (snd (move_region 2 0
             (snd (add_region ''C'' [6, 9, 5, 5] None
               (snd (add_region ''B'' [1, 2, 3, 4] None
                 (snd (add_region ''A'' [0, 0, 10, 10] None RegionManager_init))))))))"
    by (intro reach_move reach_add reach_init)
  then have r: "reachable ?s" by (simp only: e)
  have sv: "save_to_file ''regions.json'' ?s empty_disk
              = ((True, Saved_to ''regions.json''), snd (save_to_file ''regions.json'' ?s empty_disk))"
    by (simp add: save_to_file_def empty_disk_def Let_def)
  have sv0: "save_to_file ''regions.json'' RegionManager_init empty_disk
              = ((True, Saved_to ''regions.json''),
                 snd (save_to_file ''regions.json'' RegionManager_init empty_disk))"
    by (simp add: save_to_file_def empty_disk_def Let_def)
  note t = save_load_round_trip[OF r sv, of None RegionManager_init]
  note t0 = save_load_round_trip[OF reach_init sv0, of None RegionManager_init]
  have a: "region_order (snd (load_from_file ''regions.json'' None
        (snd (save_to_file ''regions.json'' ?s empty_disk)) RegionManager_init))
     = [''C'', ''A'', ''B'']"
    using t by simp
  have b: "map_option coords (map_of (regions (snd (load_from_file ''regions.json'' None
        (snd (save_to_file ''regions.json'' ?s empty_disk)) RegionManager_init))) ''B'')
     = Some (1, 2, 3, 4)"
    using t by simp
  have c: "regions (snd (load_from_file ''regions.json'' None
        (snd (save_to_file ''regions.json'' RegionManager_init empty_disk))
        RegionManager_init)) = []"
    using t0 by (simp add: RegionManager_init_def)
  have d: "region_order (snd (load_from_file ''regions.json'' None
        (snd (save_to_file ''regions.json'' RegionManager_init empty_disk))
        RegionManager_init)) = []"
    using t0 by (simp add: RegionManager_init_def)
  from r a b c d show ?thesis by blast
qed

section \<open>Resizing a region\<close>

lemma reachable_key_facts:
  assumes "reachable rm" and "map_of (regions rm) label = Some region"
  shows "label \<noteq> []" and "normalized (coords region)" and "label_ok label"
proof -
  from assms(1) have inv: "store_inv rm" by (rule reachable_store_inv)
  from assms(2) have "(label, region) \<in> set (regions rm)" by (rule map_of_SomeD)
  with inv show "label_ok label" and "normalized (coords region)"
    by (auto simp: store_inv_def)
  then show "label \<noteq> []" by (simp add: label_ok_def)
qed

lemma start_resize_True:
  assumes "start_resize label corner sx sy rm0 tool0 = (True, tool)"
  shows "\<exists>region0. map_of (regions rm0) label = Some region0
           \<and> corner \<in> set RESIZE_CORNERS
           \<and> tool = tool0\<lparr>is_resizing := True, resize_region := Some label,
                           resize_corner := Some corner, start_coords := Some (sx, sy),
                           original_coords := Some (coords region0)\<rparr>"
  using assms by (auto simp: start_resize_def split: option.splits if_splits)

lemma normalize_rect_star_4:
  "normalize_rect_star [a, b, c, d] = Inr (normalize_rect a b c d)"
  by (simp add: normalize_rect_star_def)

lemma canvas_pdf_round_trip:
  "zoom ct * scale ct \<noteq> 0 \<Longrightarrow>
     canvas_to_pdf_coords ct (fst (pdf_to_canvas_coords ct px py))
                             (snd (pdf_to_canvas_coords ct px py)) = Inr (px, py)"
  by (simp add: canvas_to_pdf_coords_total pdf_to_canvas_coords_def pdf_to_image_coords_def
        image_to_canvas_coords_def Let_def)

lemma update_resize_started:
  assumes r: "reachable rm0"
    and st: "start_resize label corner sx sy rm0 tool0 = (True, tool)"
    and m0: "map_of (regions rm0) label = Some region0"
    and m: "map_of (regions rm) label = Some region"
    and p: "canvas_to_pdf_coords ct x y = Inr (px, py)"
  shows "update_resize x y ct canvas tool rm =
           (Inr True,
            rm\<lparr>regions := AList.update label
                 (region\<lparr>coords := normalize_box (resize_box corner (coords region0) px py)\<rparr>)
                 (regions rm)\<rparr>)"
proof -
  from start_resize_True[OF st] m0 have c: "corner \<in> set RESIZE_CORNERS"
    and t: "tool = tool0\<lparr>is_resizing := True, resize_region := Some label,
                           resize_corner := Some corner, start_coords := Some (sx, sy),
                           original_coords := Some (coords region0)\<rparr>"
    by auto
  from reachable_key_facts(1)[OF r m0] have ne: "label \<noteq> []" .
  obtain ox0 oy0 ox1 oy1 where o: "coords region0 = (ox0, oy0, ox1, oy1)"
    by (cases "coords region0") auto
  show ?thesis
    using c ne m p
    by (auto simp: update_resize_def t o truthy_def RESIZE_CORNERS_def resize_box_def
          normalize_box_def update_region_coords_def normalize_rect_star_4)
qed

text \<open>
  C8: after \<open>start_resize\<close> has captured the box of a region, every \<open>update_resize\<close>
  writes the normalized \<open>resize_box\<close>: the two coordinates of the opposite corner come
  from the captured box, the other two are the pointer converted to document space, and
  the box is normalized before it is stored, so that dragging past the opposite edge
  flips the rectangle. With a non-degenerate transform the pointer over the document
  point \<open>(px, py)\<close> gives exactly that point; dragging the bottom-right corner of
  \<open>(0, 0, 10, 10)\<close> to \<open>(15, 20)\<close> stores \<open>(0, 0, 15, 20)\<close>, and to \<open>(-5, -5)\<close> stores
  \<open>(-5, -5, 0, 0)\<close>.
\<close>

theorem resize_drag_writes_normalized_box:
  assumes r: "reachable rm0"
    and st: "start_resize label corner sx sy rm0 tool0 = (True, tool)"
    and m0: "map_of (regions rm0) label = Some region0"
    and m: "map_of (regions rm) label = Some region"
  shows "(canvas_to_pdf_coords ct x y = Inr (px, py) \<longrightarrow>
            update_resize x y ct canvas tool rm =
              (Inr True,
               rm\<lparr>regions := AList.update label
                    (region\<lparr>coords := normalize_box (resize_box corner (coords region0) px py)\<rparr>)
                    (regions rm)\<rparr>))
       \<and> (zoom ct * scale ct \<noteq> 0 \<longrightarrow>
            update_resize (fst (pdf_to_canvas_coords ct px py)) (snd (pdf_to_canvas_coords ct px py))
                ct canvas tool rm =
              (Inr True,
               rm\<lparr>regions := AList.update label
                    (region\<lparr>coords := normalize_box (resize_box corner (coords region0) px py)\<rparr>)
                    (regions rm)\<rparr>))
       \<and> normalized (normalize_box (resize_box corner (coords region0) px py))
       \<and> (zoom ct * scale ct \<noteq> 0 \<and> corner = ''bottom-right'' \<and> coords region0 = (0, 0, 10, 10) \<longrightarrow>
            update_resize (fst (pdf_to_canvas_coords ct 15 20)) (snd (pdf_to_canvas_coords ct 15 20))
                ct canvas tool rm =
              (Inr True,
               rm\<lparr>regions := AList.update label (region\<lparr>coords := (0, 0, 15, 20)\<rparr>) (regions rm)\<rparr>)
            \<and> update_resize (fst (pdf_to_canvas_coords ct (- 5) (- 5)))
                (snd (pdf_to_canvas_coords ct (- 5) (- 5))) ct canvas tool rm =
              (Inr True,
               rm\<lparr>regions := AList.update label (region\<lparr>coords := (- 5, - 5, 0, 0)\<rparr>) (regions rm)\<rparr>))"
proof -
  note u = update_resize_started[OF r st m0 m]
  have a: "update_resize x y ct canvas tool rm =
              (Inr True,
               rm\<lparr>regions := AList.update label
                    (region\<lparr>coords := normalize_box (resize_box corner (coords region0) px py)\<rparr>)
                    (regions rm)\<rparr>)"
    if "canvas_to_pdf_coords ct x y = Inr (px, py)"
    using u[OF that] .
  have b: "update_resize (fst (pdf_to_canvas_coords ct qx qy)) (snd (pdf_to_canvas_coords ct qx qy))
                ct canvas tool rm =
              (Inr True,
               rm\<lparr>regions := AList.update label
                    (region\<lparr>coords := normalize_box (resize_box corner (coords region0) qx qy)\<rparr>)
                    (regions rm)\<rparr>)"
    if "zoom ct * scale ct \<noteq> 0" for qx qy
    using u[OF canvas_pdf_round_trip[OF that]] .
  have c: "normalized (normalize_box (resize_box corner (coords region0) px py))"
    by (cases "resize_box corner (coords region0) px py")
       (simp add: normalize_box_def normalized_normalize_rect)
  have d: "update_resize (fst (pdf_to_canvas_coords ct 15 20)) (snd (pdf_to_canvas_coords ct 15 20))
                ct canvas tool rm =
              (Inr True,
               rm\<lparr>regions := AList.update label (region\<lparr>coords := (0, 0, 15, 20)\<rparr>) (regions rm)\<rparr>)
            \<and> update_resize (fst (pdf_to_canvas_coords ct (- 5) (- 5)))
                (snd (pdf_to_canvas_coords ct (- 5) (- 5))) ct canvas tool rm =
              (Inr True,
               rm\<lparr>regions := AList.update label (region\<lparr>coords := (- 5, - 5, 0, 0)\<rparr>) (regions rm)\<rparr>)"
    if "zoom ct * scale ct \<noteq> 0 \<and> corner = ''bottom-right'' \<and> coords region0 = (0, 0, 10, 10)"
    using that b[of 15 20] b[of "- 5" "- 5"]
    by (simp add: resize_box_def normalize_box_def normalize_rect_def)
  from a b[of px py] c d show ?thesis by blast
qed

theorem resize_drag_writes_normalized_box_witness:
  "reachable (snd (add_region ''A'' [0, 0, 10, 10] None RegionManager_init))
   \<and> update_resize 30 40 CoordinateTransformer_init None
       (snd (start_resize ''A'' ''bottom-right'' 20 20
               (snd (add_region ''A'' [0, 0, 10, 10] None RegionManager_init)) ResizeTool_init))
       (snd (add_region ''A'' [0, 0, 10, 10] None RegionManager_init))
     = (Inr True,
        \<lparr>validator = \<lparr>file_paths = {}, region_labels = {''A''}\<rparr>,
         regions = [(''A'', \<lparr>coords = (0, 0, 15, 20), rect_id = None\<rparr>)],
         region_order = [''A''], selected_region = None\<rparr>)
   \<and> update_resize (- 10) (- 10) CoordinateTransformer_init None
       (snd (start_resize ''A'' ''bottom-right'' 20 20
               (snd (add_region ''A'' [0, 0, 10, 10] None RegionManager_init)) ResizeTool_init))
       (snd (add_region ''A'' [0, 0, 10, 10] None RegionManager_init))
     = (Inr True,
        \<lparr>validator = \<lparr>file_paths = {}, region_labels = {''A''}\<rparr>,
         regions = [(''A'', \<lparr>coords = (- 5, - 5, 0, 0), rect_id = None\<rparr>)],
         region_order = [''A''], selected_region = None\<rparr>)"
proof -
  let ?rm = "snd (add_region ''A'' [0, 0, 10, 10] None RegionManager_init)"
  let ?tool = "snd (start_resize ''A'' ''bottom-right'' 20 20 ?rm ResizeTool_init)"
  let ?region = "\<lparr>coords = (0, 0, 10, 10), rect_id = None\<rparr>"
  have r: "reachable ?rm" by (intro reach_add reach_init)
  have e: "?rm = \<lparr>validator = \<lparr>file_paths = {}, region_labels = {''A''}\<rparr>,
         regions = [(''A'', ?region)], region_order = [''A''], selected_region = None\<rparr>"
    by (simp add: add_region_def validate_label_def strip_def py_isspace_def
          normalize_rect_star_def normalize_rect_def add_label_def RegionManager_init_def
          DuplicateValidator_init_def)
  have st: "start_resize ''A'' ''bottom-right'' 20 20 ?rm ResizeTool_init = (True, ?tool)"
    unfolding e by (simp add: start_resize_def RESIZE_CORNERS_def)
  have m: "map_of (regions ?rm) ''A'' = Some ?region"
    unfolding e by simp
  note t = resize_drag_writes_normalized_box[OF r st m m,
      where ct = CoordinateTransformer_init and canvas = None, THEN conjunct1]
  have p1: "canvas_to_pdf_coords CoordinateTransformer_init 30 40 = Inr (15, 20)"
    by (simp add: canvas_to_pdf_coords_total CoordinateTransformer_init_def)
  have p2: "canvas_to_pdf_coords CoordinateTransformer_init (- 10) (- 10) = Inr (- 5, - 5)"
    by (simp add: canvas_to_pdf_coords_total CoordinateTransformer_init_def)
  have a: "update_resize 30 40 CoordinateTransformer_init None ?tool ?rm
     = (Inr True,
        \<lparr>validator = \<lparr>file_paths = {}, region_labels = {''A''}\<rparr>,
         regions = [(''A'', \<lparr>coords = (0, 0, 15, 20), rect_id = None\<rparr>)],
         region_order = [''A''], selected_region = None\<rparr>)"
    using t[of 30 40 15 20] p1
    by (simp add: e resize_box_def normalize_box_def normalize_rect_def)
  have b: "update_resize (- 10) (- 10) CoordinateTransformer_init None ?tool ?rm
     = (Inr True,
        \<lparr>validator = \<lparr>file_paths = {}, region_labels = {''A''}\<rparr>,
         regions = [(''A'', \<lparr>coords = (- 5, - 5, 0, 0), rect_id = None\<rparr>)],
         region_order = [''A''], selected_region = None\<rparr>)"
    using t[of "- 10" "- 10" "- 5" "- 5"] p2
    by (simp add: e resize_box_def normalize_box_def normalize_rect_def)
  from r a b show ?thesis by blast
qed

section \<open>Moving a region\<close>

lemma start_move_True:
  assumes "start_move label sx sy ct rm0 tool0 = (True, tool)"
    and "map_of (regions rm0) label = Some region0"
    and "coords region0 = (x0, y0, x1, y1)"
  shows "tool = tool0\<lparr>is_moving := True, moving_region := Some label,
                        move_start_coords := Some (sx, sy),
                        original_coords_move := Some (x0, y0, x1, y1),
                        original_coords_move_pdf := Some (x0, y0, x1, y1),
                        original_coords_move_canvas :=
                          Some (pdf_to_canvas_coords ct x0 y0, pdf_to_canvas_coords ct x1 y1)\<rparr>"
  using assms by (auto simp: start_move_def)

lemma translate_back:
  assumes "z \<noteq> (0::rat)"
  shows "(a * z + off + (x - sx) - off) / z = a + (x - sx) / z"
  using assms by (simp add: field_simps)

lemma update_move_started:
  assumes r: "reachable rm0"
    and st: "start_move label sx sy ct rm0 tool0 = (True, tool)"
    and m0: "map_of (regions rm0) label = Some region0"
    and m: "map_of (regions rm) label = Some region"
    and zs: "zoom ct * scale ct \<noteq> 0"
  shows "update_move x y ct canvas tool rm =
           (Inr True,
            rm\<lparr>regions := AList.update label
                 (region\<lparr>coords := translate (coords region0)
                                      ((x - sx) / (zoom ct * scale ct))
                                      ((y - sy) / (zoom ct * scale ct))\<rparr>)
                 (regions rm)\<rparr>)"
proof -
  obtain x0 y0 x1 y1 where o: "coords region0 = (x0, y0, x1, y1)"
    by (cases "coords region0") auto
  note t = start_move_True[OF st m0 o]
  from reachable_key_facts[OF r m0] o have ne: "label \<noteq> []" and n: "x0 \<le> x1" "y0 \<le> y1"
    by (simp_all add: normalized_def)
  let ?z = "zoom ct * scale ct"
  have c0: "canvas_to_pdf_coords ct (fst (pdf_to_canvas_coords ct x0 y0) + (x - sx))
               (snd (pdf_to_canvas_coords ct x0 y0) + (y - sy))
             = Inr (x0 + (x - sx) / ?z, y0 + (y - sy) / ?z)"
    using zs translate_back[OF zs]
    by (simp add: canvas_to_pdf_coords_total pdf_to_canvas_coords_def pdf_to_image_coords_def
          image_to_canvas_coords_def Let_def)
  have c1: "canvas_to_pdf_coords ct (fst (pdf_to_canvas_coords ct x1 y1) + (x - sx))
               (snd (pdf_to_canvas_coords ct x1 y1) + (y - sy))
             = Inr (x1 + (x - sx) / ?z, y1 + (y - sy) / ?z)"
    using zs translate_back[OF zs]
    by (simp add: canvas_to_pdf_coords_total pdf_to_canvas_coords_def pdf_to_image_coords_def
          image_to_canvas_coords_def Let_def)
  have nz: "normalize_rect (x0 + (x - sx) / ?z) (y0 + (y - sy) / ?z)
                           (x1 + (x - sx) / ?z) (y1 + (y - sy) / ?z)
              = translate (coords region0) ((x - sx) / ?z) ((y - sy) / ?z)"
    using n by (simp add: normalize_rect_def translate_def o)
  obtain a0 b0 where p0: "pdf_to_canvas_coords ct x0 y0 = (a0, b0)"
    by (cases "pdf_to_canvas_coords ct x0 y0")
  obtain a1 b1 where p1: "pdf_to_canvas_coords ct x1 y1 = (a1, b1)"
    by (cases "pdf_to_canvas_coords ct x1 y1")
  show ?thesis
    using ne m c0 c1
    by (simp add: update_move_def t truthy_def p0 p1 Let_def update_region_coords_def
          normalize_rect_star_4 nz)
qed


lemma handle_mouse_drag_moving:
  assumes "\<not> is_resizing tool" and "is_moving tool"
    and "update_move x y ct canvas tool rm = (Inr True, rm')"
  shows "snd (handle_mouse_drag x y ct canvas tool rm) = rm'"
  using assms by (simp add: handle_mouse_drag_def)

lemma drag_events_move:
  assumes r: "reachable rm0"
    and st: "start_move label sx sy ct rm0 tool0 = (True, tool)"
    and m0: "map_of (regions rm0) label = Some region0"
    and zs: "zoom ct * scale ct \<noteq> 0"
    and nr: "\<not> is_resizing tool"
  shows "map_of (regions rm) label = Some region \<Longrightarrow> events \<noteq> [] \<Longrightarrow>
         map_option coords (map_of (regions (drag_events events ct canvas tool rm)) label)
           = Some (translate (coords region0)
                     ((fst (last events) - sx) / (zoom ct * scale ct))
                     ((snd (last events) - sy) / (zoom ct * scale ct)))"
proof (induction events arbitrary: rm region)
  case Nil
  then show ?case by simp
next
  case (Cons e es)
  obtain x y where e: "e = (x, y)" by (cases e)
  obtain x0 y0 x1 y1 where o: "coords region0 = (x0, y0, x1, y1)"
    by (cases "coords region0") auto
  have mv: "is_moving tool" by (simp add: start_move_True[OF st m0 o])
  let ?T = "translate (coords region0) ((x - sx) / (zoom ct * scale ct))
              ((y - sy) / (zoom ct * scale ct))"
  let ?rm1 = "rm\<lparr>regions := AList.update label (region\<lparr>coords := ?T\<rparr>) (regions rm)\<rparr>"
  have u: "update_move x y ct canvas tool rm = (Inr True, ?rm1)"
    by (rule update_move_started[OF r st m0 Cons.prems(1) zs])
  have s1: "snd (handle_mouse_drag x y ct canvas tool rm) = ?rm1"
    by (rule handle_mouse_drag_moving[OF nr mv u])
  have m1': "map_of (AList.update label (region\<lparr>coords := ?T\<rparr>) (regions rm)) label
               = Some (region\<lparr>coords := ?T\<rparr>)"
    by (simp add: update_conv')
  then have m1: "map_of (regions ?rm1) label = Some (region\<lparr>coords := ?T\<rparr>)"
    by simp
  show ?case
  proof (cases "es = []")
    case True
    then show ?thesis by (simp add: e s1 m1')
  next
    case False
    from Cons.IH[OF m1 False] False show ?thesis by (simp add: e s1)
  qed
qed

lemma width_translate: "width (translate box tx ty) = width box"
  by (cases box) (simp add: width_def translate_def)

lemma height_translate: "height (translate box tx ty) = height box"
  by (cases box) (simp add: height_def translate_def)

text \<open>
  C10: after \<open>start_move\<close> has captured the box of a region, and as long as the transform
  keeps \<open>zoom * scale \<noteq> 0\<close>, every \<open>update_move\<close> writes the captured box translated
  by \<open>(dx / (zoom * scale), dy / (zoom * scale))\<close>, where \<open>(dx, dy)\<close> is the displacement
  of the pointer on the canvas since the press. After any number of drag events the
  stored box is the captured one translated by the displacement of the last event, so
  its width and height are those of the captured box.
\<close>

theorem move_drag_preserves_size:
  assumes r: "reachable rm0"
    and st: "start_move label sx sy ct rm0 tool0 = (True, tool)"
    and m0: "map_of (regions rm0) label = Some region0"
    and zs: "zoom ct * scale ct \<noteq> 0"
    and nr: "\<not> is_resizing tool"
  shows "(map_of (regions rm) label = Some region \<longrightarrow>
            update_move x y ct canvas tool rm =
              (Inr True,
               rm\<lparr>regions := AList.update label
                    (region\<lparr>coords := translate (coords region0)
                                         ((x - sx) / (zoom ct * scale ct))
                                         ((y - sy) / (zoom ct * scale ct))\<rparr>)
                    (regions rm)\<rparr>))
       \<and> (events \<noteq> [] \<longrightarrow>
            map_option coords (map_of (regions (drag_events events ct canvas tool rm0)) label)
              = Some (translate (coords region0)
                        ((fst (last events) - sx) / (zoom ct * scale ct))
                        ((snd (last events) - sy) / (zoom ct * scale ct))))
       \<and> (events \<noteq> [] \<longrightarrow>
            map_option (\<lambda>region'. (width (coords region'), height (coords region')))
                (map_of (regions (drag_events events ct canvas tool rm0)) label)
              = Some (width (coords region0), height (coords region0)))"
proof -
  note d = drag_events_move[OF r st m0 zs nr m0, of events canvas]
  have w: "map_option (\<lambda>region'. (width (coords region'), height (coords region')))
                (map_of (regions (drag_events events ct canvas tool rm0)) label)
              = Some (width (coords region0), height (coords region0))"
    if "events \<noteq> []"
    using d[OF that]
    by (cases "map_of (regions (drag_events events ct canvas tool rm0)) label")
       (auto simp: width_translate height_translate)
  from update_move_started[OF r st m0 _ zs, of rm region x y canvas] d w
  show ?thesis by blast
qed

theorem move_drag_preserves_size_witness:
  "reachable (snd (add_region ''A'' [0, 0, 10, 10] None RegionManager_init))
   \<and> update_move 26 34 CoordinateTransformer_init None
       (snd (start_move ''A'' 20 20 CoordinateTransformer_init
               (snd (add_region ''A'' [0, 0, 10, 10] None RegionManager_init)) ResizeTool_init))
       (snd (add_region ''A'' [0, 0, 10, 10] None RegionManager_init))
     = (Inr True,
        \<lparr>validator = \<lparr>file_paths = {}, region_labels = {''A''}\<rparr>,
         regions = [(''A'', \<lparr>coords = (3, 7, 13, 17), rect_id = None\<rparr>)],
         region_order = [''A''], selected_region = None\<rparr>)
   \<and> map_option coords (map_of (regions (drag_events [(0, 0), (100, 7), (26, 34)]
        CoordinateTransformer_init None
        (snd (start_move ''A'' 20 20 CoordinateTransformer_init
               (snd (add_region ''A'' [0, 0, 10, 10] None RegionManager_init)) ResizeTool_init))
        (snd (add_region ''A'' [0, 0, 10, 10] None RegionManager_init)))) ''A'')
     = Some (3, 7, 13, 17)"
proof -
  let ?rm = "snd (add_region ''A'' [0, 0, 10, 10] None RegionManager_init)"
  let ?ct = CoordinateTransformer_init
  let ?tool = "snd (start_move ''A'' 20 20 ?ct ?rm ResizeTool_init)"
  let ?region = "\<lparr>coords = (0, 0, 10, 10), rect_id = None\<rparr>"
  have r: "reachable ?rm" by (intro reach_add reach_init)
  have e: "?rm = \<lparr>validator = \<lparr>file_paths = {}, region_labels = {''A''}\<rparr>,
         regions = [(''A'', ?region)], region_order = [''A''], selected_region = None\<rparr>"
    by (simp add: add_region_def validate_label_def strip_def py_isspace_def
          normalize_rect_star_def normalize_rect_def add_label_def RegionManager_init_def
          DuplicateValidator_init_def)
  have st: "start_move ''A'' 20 20 ?ct ?rm ResizeTool_init = (True, ?tool)"
    unfolding e by (simp add: start_move_def)
  have m: "map_of (regions ?rm) ''A'' = Some ?region"
    unfolding e by simp
  have zs: "zoom ?ct * scale ?ct \<noteq> 0" by (simp add: CoordinateTransformer_init_def)
  have nr: "\<not> is_resizing ?tool"
    unfolding e by (simp add: start_move_def ResizeTool_init_def)
  note t = move_drag_preserves_size[OF r st m zs nr, where canvas = None]
  have a: "update_move 26 34 ?ct None ?tool ?rm
     = (Inr True,
        \<lparr>validator = \<lparr>file_paths = {}, region_labels = {''A''}\<rparr>,
         regions = [(''A'', \<lparr>coords = (3, 7, 13, 17), rect_id = None\<rparr>)],
         region_order = [''A''], selected_region = None\<rparr>)"
    using t[of ?rm ?region 26 34, THEN conjunct1] m
    by (simp add: e translate_def CoordinateTransformer_init_def)
  have b: "map_option coords (map_of (regions (drag_events [(0, 0), (100, 7), (26, 34)]
        ?ct None ?tool ?rm)) ''A'') = Some (3, 7, 13, 17)"
    using t[of _ _ _ _ "[(0, 0), (100, 7), (26, 34)]", THEN conjunct2, THEN conjunct1]
    by (simp add: translate_def CoordinateTransformer_init_def)
  from r a b show ?thesis by blast
qed

section \<open>Dispatch of a button press\<close>

lemma check_corner_proximity_hit:
  assumes "map_of (regions rm) label = Some region"
  shows "check_corner_proximity ct rm x y label = corner_hit ct (coords region) x y"
proof -
  obtain x0 y0 x1 y1 where o: "coords region = (x0, y0, x1, y1)"
    by (cases "coords region") auto
  have f: "fst (pdf_to_canvas_coords ct px py) = fst (pdf_to_canvas_coords ct px qy)" for px py qy
    by (simp add: pdf_to_canvas_coords_def pdf_to_image_coords_def image_to_canvas_coords_def Let_def)
  have s: "snd (pdf_to_canvas_coords ct px py) = snd (pdf_to_canvas_coords ct qx py)" for px py qx
    by (simp add: pdf_to_canvas_coords_def pdf_to_image_coords_def image_to_canvas_coords_def Let_def)
  obtain cx0 cy0 where p0: "pdf_to_canvas_coords ct x0 y0 = (cx0, cy0)"
    by (cases "pdf_to_canvas_coords ct x0 y0")
  obtain cx1 cy1 where p1: "pdf_to_canvas_coords ct x1 y1 = (cx1, cy1)"
    by (cases "pdf_to_canvas_coords ct x1 y1")
  have tr: "fst (pdf_to_canvas_coords ct x1 y0) = cx1" "snd (pdf_to_canvas_coords ct x1 y0) = cy0"
    and bl: "fst (pdf_to_canvas_coords ct x0 y1) = cx0" "snd (pdf_to_canvas_coords ct x0 y1) = cy1"
    using f[of x1 y0 y1] s[of x1 y0 x0] f[of x0 y1 y0] s[of x0 y1 x1] p0 p1 by simp_all
  show ?thesis
    using assms
    by (simp add: check_corner_proximity_def corner_hit_def near_corner_def o p0 p1 tr bl Let_def)
qed

lemma corner_hit_Some:
  "corner_hit ct box x y = Some corner \<Longrightarrow> corner \<noteq> [] \<and> corner \<in> set RESIZE_CORNERS"
  by (cases box) (auto simp: corner_hit_def RESIZE_CORNERS_def split: if_splits)

lemma press_corner_loop_none:
  assumes "\<forall>(l, r) \<in> set rs. map_of (regions rm) l = Some r"
    and "\<forall>(l, r) \<in> set rs. corner_hit ct (coords r) x y = None"
  shows "press_corner_loop ct rm x y tool rs = None"
  using assms
proof (induction rs)
  case Nil
  then show ?case by simp
next
  case (Cons p rs)
  obtain l r where p: "p = (l, r)" by (cases p)
  with Cons.prems have "check_corner_proximity ct rm x y l = None"
    by (simp add: check_corner_proximity_hit)
  with Cons p show ?case by (simp add: truthy_def)
qed

lemma press_corner_loop_first:
  assumes "\<forall>(l, r) \<in> set (pre @ (label, region) # post). map_of (regions rm) l = Some r"
    and "\<forall>(l, r) \<in> set pre. corner_hit ct (coords r) x y = None"
    and "corner_hit ct (coords region) x y = Some corner"
  shows "press_corner_loop ct rm x y tool (pre @ (label, region) # post) =
           Some (tool\<lparr>is_resizing := True, resize_region := Some label,
                      resize_corner := Some corner, start_coords := Some (x, y),
                      original_coords := Some (coords region)\<rparr>)"
  using assms
proof (induction pre)
  case Nil
  then have m: "map_of (regions rm) label = Some region" by simp
  with Nil have c: "check_corner_proximity ct rm x y label = Some corner"
    by (simp add: check_corner_proximity_hit)
  from corner_hit_Some[OF Nil.prems(3)] have "corner \<noteq> []" "corner \<in> set RESIZE_CORNERS"
    by simp_all
  with m c show ?case by (simp add: truthy_def start_resize_def)
next
  case (Cons p pre)
  obtain l r where p: "p = (l, r)" by (cases p)
  with Cons.prems have "check_corner_proximity ct rm x y l = None"
    by (simp add: check_corner_proximity_hit)
  with Cons p show ?case by (simp add: truthy_def)
qed

lemma press_inside_loop_none:
  assumes "\<forall>(l, r) \<in> set rs. \<not> inside_box ct (coords r) x y"
  shows "press_inside_loop ct rm x y tool rs = None"
  using assms
proof (induction rs)
  case Nil
  then show ?case by simp
next
  case (Cons p rs)
  obtain l r where p: "p = (l, r)" by (cases p)
  with Cons show ?case
    by (cases "coords r") (auto simp: inside_box_def split: prod.splits)
qed

lemma press_inside_loop_first:
  assumes "map_of (regions rm) label = Some region"
    and "\<forall>(l, r) \<in> set pre. \<not> inside_box ct (coords r) x y"
    and "inside_box ct (coords region) x y"
    and "coords region = (x0, y0, x1, y1)"
  shows "press_inside_loop ct rm x y tool (pre @ (label, region) # post) =
           Some (tool\<lparr>is_moving := True, moving_region := Some label,
                      move_start_coords := Some (x, y),
                      original_coords_move := Some (coords region),
                      original_coords_move_pdf := Some (coords region),
                      original_coords_move_canvas :=
                        Some (pdf_to_canvas_coords ct x0 y0, pdf_to_canvas_coords ct x1 y1)\<rparr>)"
  using assms
proof (induction pre)
  case Nil
  then show ?case
    by (auto simp: inside_box_def start_move_def split: prod.splits)
next
  case (Cons p pre)
  obtain l r where p: "p = (l, r)" by (cases p)
  with Cons show ?case
    by (cases "coords r") (auto simp: inside_box_def split: prod.splits)
qed


lemma dict_lookup:
  assumes "reachable rm" and "(l, r) \<in> set (regions rm)"
  shows "map_of (regions rm) l = Some r"
proof -
  from assms(1) have d: "distinct (map fst (regions rm))"
    using reachable_store_inv by (simp add: store_inv_def)
  from d assms(2) show ?thesis by (rule map_of_is_SomeI)
qed

lemma on_mouse_press_resize:
  "mode_var a = ''resize'' \<Longrightarrow>
     on_mouse_press x y dialog_label canvas a =
       (Inr (), a\<lparr>resize_tool := handle_mouse_press x y (coord_transformer a)
                                   (region_manager a) (resize_tool a)\<rparr>)"
  by (simp add: on_mouse_press_def)

lemma on_mouse_press_other:
  "mode_var a \<noteq> ''resize'' \<Longrightarrow>
     resize_tool (snd (on_mouse_press x y dialog_label canvas a)) = resize_tool a"
  by (auto simp: on_mouse_press_def Let_def split: prod.splits sum.splits option.splits)

text \<open>
  C9, as the code has it. A press in resize mode, on a reachable store:
  \<^item> corner proximity is tested for every region in the iteration order of the dict, the
    corners in the order top-left, top-right, bottom-left, bottom-right; the first hit
    starts a resize and captures the box of that region, whether or not an earlier region
    contains the pointer;
  \<^item> when no corner of any region is hit, the first region whose box contains the pointer
    starts a move, capturing its box in document space and on the canvas;
  \<^item> when neither matches, the press is dropped: the application state is unchanged, and
    the selection tools do not see the press.
  In word or box mode the press goes to the selection tools and the resize tool is
  unchanged.
\<close>

theorem press_dispatch_in_resize_mode:
  assumes r: "reachable (region_manager a)"
  shows "(mode_var a = ''resize''
            \<and> regions (region_manager a) = pre @ (label, region) # post
            \<and> (\<forall>(l, r) \<in> set pre. corner_hit (coord_transformer a) (coords r) x y = None)
            \<and> corner_hit (coord_transformer a) (coords region) x y = Some corner \<longrightarrow>
          on_mouse_press x y dialog_label canvas a =
            (Inr (), a\<lparr>resize_tool := (resize_tool a)
                      \<lparr>is_resizing := True, resize_region := Some label,
                       resize_corner := Some corner, start_coords := Some (x, y),
                       original_coords := Some (coords region)\<rparr>\<rparr>))
       \<and> (mode_var a = ''resize''
            \<and> (\<forall>(l, r) \<in> set (regions (region_manager a)).
                  corner_hit (coord_transformer a) (coords r) x y = None)
            \<and> regions (region_manager a) = pre @ (label, region) # post
            \<and> (\<forall>(l, r) \<in> set pre. \<not> inside_box (coord_transformer a) (coords r) x y)
            \<and> inside_box (coord_transformer a) (coords region) x y
            \<and> coords region = (x0, y0, x1, y1) \<longrightarrow>
          on_mouse_press x y dialog_label canvas a =
            (Inr (), a\<lparr>resize_tool := (resize_tool a)
                      \<lparr>is_moving := True, moving_region := Some label,
                       move_start_coords := Some (x, y),
                       original_coords_move := Some (coords region),
                       original_coords_move_pdf := Some (coords region),
                       original_coords_move_canvas :=
                         Some (pdf_to_canvas_coords (coord_transformer a) x0 y0,
                               pdf_to_canvas_coords (coord_transformer a) x1 y1)\<rparr>\<rparr>))
       \<and> (mode_var a = ''resize''
            \<and> (\<forall>(l, r) \<in> set (regions (region_manager a)).
                  corner_hit (coord_transformer a) (coords r) x y = None
                  \<and> \<not> inside_box (coord_transformer a) (coords r) x y) \<longrightarrow>
          on_mouse_press x y dialog_label canvas a = (Inr (), a))
       \<and> (mode_var a \<noteq> ''resize'' \<longrightarrow>
          resize_tool (snd (on_mouse_press x y dialog_label canvas a)) = resize_tool a)"
proof (intro conjI impI)
  let ?ct = "coord_transformer a" and ?rm = "region_manager a"
  have lk: "\<forall>(l, r) \<in> set (regions ?rm). map_of (regions ?rm) l = Some r"
    using dict_lookup[OF r] by blast
  {
    assume h: "mode_var a = ''resize''
            \<and> regions ?rm = pre @ (label, region) # post
            \<and> (\<forall>(l, r) \<in> set pre. corner_hit ?ct (coords r) x y = None)
            \<and> corner_hit ?ct (coords region) x y = Some corner"
    then have lk': "\<forall>(l, r) \<in> set (pre @ (label, region) # post). map_of (regions ?rm) l = Some r"
      using lk by simp
    from h have "press_corner_loop ?ct ?rm x y (resize_tool a) (regions ?rm) =
           Some ((resize_tool a)\<lparr>is_resizing := True, resize_region := Some label,
                      resize_corner := Some corner, start_coords := Some (x, y),
                      original_coords := Some (coords region)\<rparr>)"
      using press_corner_loop_first[OF lk', of ?ct x y corner "resize_tool a"] by simp
    with h show "on_mouse_press x y dialog_label canvas a =
            (Inr (), a\<lparr>resize_tool := (resize_tool a)
                      \<lparr>is_resizing := True, resize_region := Some label,
                       resize_corner := Some corner, start_coords := Some (x, y),
                       original_coords := Some (coords region)\<rparr>\<rparr>)"
      by (simp add: on_mouse_press_resize handle_mouse_press_def)
  }
  {
    assume h: "mode_var a = ''resize''
            \<and> (\<forall>(l, r) \<in> set (regions ?rm). corner_hit ?ct (coords r) x y = None)
            \<and> regions ?rm = pre @ (label, region) # post
            \<and> (\<forall>(l, r) \<in> set pre. \<not> inside_box ?ct (coords r) x y)
            \<and> inside_box ?ct (coords region) x y
            \<and> coords region = (x0, y0, x1, y1)"
    then have c: "press_corner_loop ?ct ?rm x y (resize_tool a) (regions ?rm) = None"
      using press_corner_loop_none[OF lk] by blast
    from h lk have m: "map_of (regions ?rm) label = Some region" by simp
    from h have h1: "\<forall>(l, r) \<in> set pre. \<not> inside_box ?ct (coords r) x y"
      and h2: "inside_box ?ct (coords region) x y"
      and h3: "coords region = (x0, y0, x1, y1)"
      and h4: "regions ?rm = pre @ (label, region) # post"
      by blast+
    have "press_inside_loop ?ct ?rm x y (resize_tool a) (regions ?rm) =
           Some ((resize_tool a)\<lparr>is_moving := True, moving_region := Some label,
                      move_start_coords := Some (x, y),
                      original_coords_move := Some (coords region),
                      original_coords_move_pdf := Some (coords region),
                      original_coords_move_canvas :=
                        Some (pdf_to_canvas_coords ?ct x0 y0, pdf_to_canvas_coords ?ct x1 y1)\<rparr>)"
      unfolding h4 by (rule press_inside_loop_first[OF m h1 h2 h3])
    with h c show "on_mouse_press x y dialog_label canvas a =
            (Inr (), a\<lparr>resize_tool := (resize_tool a)
                      \<lparr>is_moving := True, moving_region := Some label,
                       move_start_coords := Some (x, y),
                       original_coords_move := Some (coords region),
                       original_coords_move_pdf := Some (coords region),
                       original_coords_move_canvas :=
                         Some (pdf_to_canvas_coords ?ct x0 y0,
                               pdf_to_canvas_coords ?ct x1 y1)\<rparr>\<rparr>)"
      by (simp add: on_mouse_press_resize handle_mouse_press_def)
  }
  {
    assume h: "mode_var a = ''resize''
            \<and> (\<forall>(l, r) \<in> set (regions ?rm).
                  corner_hit ?ct (coords r) x y = None \<and> \<not> inside_box ?ct (coords r) x y)"
    then have c: "press_corner_loop ?ct ?rm x y (resize_tool a) (regions ?rm) = None"
      using press_corner_loop_none[OF lk, of ?ct x y "resize_tool a"] by fast
    from h have i: "press_inside_loop ?ct ?rm x y (resize_tool a) (regions ?rm) = None"
      using press_inside_loop_none[of "regions ?rm" ?ct x y ?rm "resize_tool a"] by fast
    from h c i show "on_mouse_press x y dialog_label canvas a = (Inr (), a)"
      by (simp add: on_mouse_press_resize handle_mouse_press_def)
  }
  {
    assume "mode_var a \<noteq> ''resize''"
    then show "resize_tool (snd (on_mouse_press x y dialog_label canvas a)) = resize_tool a"
      by (rule on_mouse_press_other)
  }
qed


theorem press_dispatch_in_resize_mode_witness:
  "reachable
     (\<lparr>validator = \<lparr>file_paths = {}, region_labels = {''B'', ''A''}\<rparr>,
          regions = [(''A'', \<lparr>coords = (0, 0, 100, 100), rect_id = None\<rparr>),
                     (''B'', \<lparr>coords = (40, 40, 70, 70), rect_id = None\<rparr>)],
          region_order = [''A'', ''B''], selected_region = None\<rparr>)
   \<and> on_mouse_press 138 139 None None
       (\<lparr>mode_var = ''resize'', coord_transformer = CoordinateTransformer_init,
        text_coords = [],
        region_manager =
         \<lparr>validator = \<lparr>file_paths = {}, region_labels = {''B'', ''A''}\<rparr>,
          regions = [(''A'', \<lparr>coords = (0, 0, 100, 100), rect_id = None\<rparr>),
                     (''B'', \<lparr>coords = (40, 40, 70, 70), rect_id = None\<rparr>)],
          region_order = [''A'', ''B''], selected_region = None\<rparr>,
        selection_tools = SelectionToolManager_init, resize_tool = ResizeTool_init\<rparr>)
     = (Inr (),
        (\<lparr>mode_var = ''resize'', coord_transformer = CoordinateTransformer_init,
        text_coords = [],
        region_manager =
         \<lparr>validator = \<lparr>file_paths = {}, region_labels = {''B'', ''A''}\<rparr>,
          regions = [(''A'', \<lparr>coords = (0, 0, 100, 100), rect_id = None\<rparr>),
                     (''B'', \<lparr>coords = (40, 40, 70, 70), rect_id = None\<rparr>)],
          region_order = [''A'', ''B''], selected_region = None\<rparr>,
        selection_tools = SelectionToolManager_init, resize_tool = ResizeTool_init\<rparr>)
        \<lparr>resize_tool := ResizeTool_init
           \<lparr>is_resizing := True, resize_region := Some ''B'',
            resize_corner := Some ''bottom-right'', start_coords := Some (138, 139),
            original_coords := Some (40, 40, 70, 70)\<rparr>\<rparr>)
   \<and> on_mouse_press 110 110 None None
       (\<lparr>mode_var = ''resize'', coord_transformer = CoordinateTransformer_init,
        text_coords = [],
        region_manager =
         \<lparr>validator = \<lparr>file_paths = {}, region_labels = {''B'', ''A''}\<rparr>,
          regions = [(''A'', \<lparr>coords = (0, 0, 100, 100), rect_id = None\<rparr>),
                     (''B'', \<lparr>coords = (40, 40, 70, 70), rect_id = None\<rparr>)],
          region_order = [''A'', ''B''], selected_region = None\<rparr>,
        selection_tools = SelectionToolManager_init, resize_tool = ResizeTool_init\<rparr>)
     = (Inr (),
        (\<lparr>mode_var = ''resize'', coord_transformer = CoordinateTransformer_init,
        text_coords = [],
        region_manager =
         \<lparr>validator = \<lparr>file_paths = {}, region_labels = {''B'', ''A''}\<rparr>,
          regions = [(''A'', \<lparr>coords = (0, 0, 100, 100), rect_id = None\<rparr>),
                     (''B'', \<lparr>coords = (40, 40, 70, 70), rect_id = None\<rparr>)],
          region_order = [''A'', ''B''], selected_region = None\<rparr>,
        selection_tools = SelectionToolManager_init, resize_tool = ResizeTool_init\<rparr>)
        \<lparr>resize_tool := ResizeTool_init
           \<lparr>is_moving := True, moving_region := Some ''A'',
            move_start_coords := Some (110, 110),
            original_coords_move := Some (0, 0, 100, 100),
            original_coords_move_pdf := Some (0, 0, 100, 100),
            original_coords_move_canvas := Some ((0, 0), (200, 200))\<rparr>\<rparr>)
   \<and> on_mouse_press 500 500 None None
       (\<lparr>mode_var = ''resize'', coord_transformer = CoordinateTransformer_init,
        text_coords = [],
        region_manager =
         \<lparr>validator = \<lparr>file_paths = {}, region_labels = {''B'', ''A''}\<rparr>,
          regions = [(''A'', \<lparr>coords = (0, 0, 100, 100), rect_id = None\<rparr>),
                     (''B'', \<lparr>coords = (40, 40, 70, 70), rect_id = None\<rparr>)],
          region_order = [''A'', ''B''], selected_region = None\<rparr>,
        selection_tools = SelectionToolManager_init, resize_tool = ResizeTool_init\<rparr>)
     = (Inr (),
        \<lparr>mode_var = ''resize'', coord_transformer = CoordinateTransformer_init,
        text_coords = [],
        region_manager =
         \<lparr>validator = \<lparr>file_paths = {}, region_labels = {''B'', ''A''}\<rparr>,
          regions = [(''A'', \<lparr>coords = (0, 0, 100, 100), rect_id = None\<rparr>),
                     (''B'', \<lparr>coords = (40, 40, 70, 70), rect_id = None\<rparr>)],
          region_order = [''A'', ''B''], selected_region = None\<rparr>,
        selection_tools = SelectionToolManager_init, resize_tool = ResizeTool_init\<rparr>)"
proof -
  let ?rA = "\<lparr>coords = (0, 0, 100, 100), rect_id = None\<rparr>"
  let ?rB = "\<lparr>coords = (40, 40, 70, 70), rect_id = None\<rparr>"
  let ?rm = "\<lparr>validator = \<lparr>file_paths = {}, region_labels = {''B'', ''A''}\<rparr>,
          regions = [(''A'', \<lparr>coords = (0, 0, 100, 100), rect_id = None\<rparr>),
                     (''B'', \<lparr>coords = (40, 40, 70, 70), rect_id = None\<rparr>)],
          region_order = [''A'', ''B''], selected_region = None\<rparr>"
  let ?a = "\<lparr>mode_var = ''resize'', coord_transformer = CoordinateTransformer_init,
        text_coords = [],
        region_manager =
         \<lparr>validator = \<lparr>file_paths = {}, region_labels = {''B'', ''A''}\<rparr>,
          regions = [(''A'', \<lparr>coords = (0, 0, 100, 100), rect_id = None\<rparr>),
                     (''B'', \<lparr>coords = (40, 40, 70, 70), rect_id = None\<rparr>)],
          region_order = [''A'', ''B''], selected_region = None\<rparr>,
        selection_tools = SelectionToolManager_init, resize_tool = ResizeTool_init\<rparr>"
  have e: "snd (add_region ''B'' [40, 40, 70, 70] None
             (snd (add_region ''A'' [0, 0, 100, 100] None RegionManager_init))) = ?rm"
    by (simp add: add_region_def validate_label_def strip_def py_isspace_def
          normalize_rect_star_def normalize_rect_def add_label_def RegionManager_init_def
          DuplicateValidator_init_def)
  have "reachable (snd (add_region ''B'' [40, 40, 70, 70] None
             (snd (add_region ''A'' [0, 0, 100, 100] None RegionManager_init))))"
    by (intro reach_add reach_init)
  then have r: "reachable ?rm" by (simp only: e)
  have ra: "reachable (region_manager ?a)" using r by simp
  note t = press_dispatch_in_resize_mode[OF ra, where canvas = None and dialog_label = None]
  have a: "on_mouse_press 138 139 None None ?a
     = (Inr (),
        ?a\<lparr>resize_tool := ResizeTool_init
           \<lparr>is_resizing := True, resize_region := Some ''B'',
            resize_corner := Some ''bottom-right'', start_coords := Some (138, 139),
            original_coords := Some (40, 40, 70, 70)\<rparr>\<rparr>)"
    using t[where pre = "[(''A'', ?rA)]" and label = "''B''" and region = ?rB and post = "[]"
        and corner = "''bottom-right''" and x = 138 and y = 139, THEN conjunct1]
    by (simp add: corner_hit_def near_corner_def pdf_to_canvas_coords_def
          pdf_to_image_coords_def image_to_canvas_coords_def RESIZE_CORNER_THRESHOLD_def
          CoordinateTransformer_init_def Let_def)
  have b: "on_mouse_press 110 110 None None ?a
     = (Inr (),
        ?a\<lparr>resize_tool := ResizeTool_init
           \<lparr>is_moving := True, moving_region := Some ''A'',
            move_start_coords := Some (110, 110),
            original_coords_move := Some (0, 0, 100, 100),
            original_coords_move_pdf := Some (0, 0, 100, 100),
            original_coords_move_canvas := Some ((0, 0), (200, 200))\<rparr>\<rparr>)"
    using t[where pre = "[]" and label = "''A''" and region = ?rA and post = "[(''B'', ?rB)]"
        and x = 110 and y = 110 and ?x0.0 = 0 and ?y0.0 = 0 and ?x1.0 = 100 and ?y1.0 = 100,
        THEN conjunct2, THEN conjunct1]
    by (simp add: corner_hit_def near_corner_def inside_box_def pdf_to_canvas_coords_def
          pdf_to_image_coords_def image_to_canvas_coords_def RESIZE_CORNER_THRESHOLD_def
          CoordinateTransformer_init_def Let_def)
  have c: "on_mouse_press 500 500 None None ?a = (Inr (), ?a)"
    using t[where x = 500 and y = 500, THEN conjunct2, THEN conjunct2, THEN conjunct1]
    by (simp add: corner_hit_def near_corner_def inside_box_def pdf_to_canvas_coords_def
          pdf_to_image_coords_def image_to_canvas_coords_def RESIZE_CORNER_THRESHOLD_def
          CoordinateTransformer_init_def Let_def)
  from r a b c show ?thesis by blast
qed

text \<open>
  The third step as the specification words it fails: in resize mode, with the box tool
  current and no region under the pointer, the press leaves the whole application state
  as it was, whereas the box tool, had it received the press, would have started a
  drawing.
\<close>

theorem press_in_resize_mode_is_not_forwarded:
  "on_mouse_press 5 5 None None
     \<lparr>mode_var = ''resize'', coord_transformer = CoordinateTransformer_init, text_coords = [],
      region_manager = RegionManager_init,
      selection_tools = \<lparr>current_tool = ''box'',
                         box_tool = \<lparr>start_pos = None, temp_rect = None, is_drawing = False\<rparr>\<rparr>,
      resize_tool = ResizeTool_init\<rparr>
   = (Inr (),
      \<lparr>mode_var = ''resize'', coord_transformer = CoordinateTransformer_init, text_coords = [],
       region_manager = RegionManager_init,
       selection_tools = \<lparr>current_tool = ''box'',
                          box_tool = \<lparr>start_pos = None, temp_rect = None, is_drawing = False\<rparr>\<rparr>,
       resize_tool = ResizeTool_init\<rparr>)
   \<and> selection_handle_mouse_press CoordinateTransformer_init [] 5 5
       \<lparr>current_tool = ''box'',
        box_tool = \<lparr>start_pos = None, temp_rect = None, is_drawing = False\<rparr>\<rparr>
   = (Inr True,
      \<lparr>current_tool = ''box'',
       box_tool = \<lparr>start_pos = Some (5, 5), temp_rect = None, is_drawing = True\<rparr>\<rparr>)"
  by (simp add: on_mouse_press_def handle_mouse_press_def RegionManager_init_def
        selection_handle_mouse_press_def box_handle_mouse_press_def canvas_to_image_coords_def
        CoordinateTransformer_init_def)

end
